theory Spec2Isabelle
  imports Main "HOL-Library.Monad_Syntax"
begin

section \<open>Data model\<close>

text \<open>
  The three model classes (\<^verbatim>\<open>doctores.model.ts\<close>, \<^verbatim>\<open>paciente.model.ts\<close>,
  \<^verbatim>\<open>cita.model.ts\<close>) become records of their columns. An \<^verbatim>\<open>INTEGER\<close> column holds an
  \<open>int\<close>, a \<^verbatim>\<open>STRING\<close> column a \<open>string\<close>, a \<^verbatim>\<open>DATE\<close> column the time value of the date.
  Field names are shared between the classes, so they are written qualified
  (\<open>doctor.nombre\<close>, \<open>paciente.nombre\<close>).
\<close>

type_synonym Date = int

record doctor =
  id_profesional :: int
  nombre :: string
  apellido :: string
  correo :: string
  telefono :: string
  especialidad :: string

record paciente =
  id_numeroCedula :: int
  nombre :: string
  apellido :: string
  fecha_nacimiento :: Date
  telefono :: string

record cita =
  fecha_hora :: Date
  id_profesional :: int
  id_numeroCedula :: int

text \<open>The values of \<^verbatim>\<open>DataType.ENUM('medicina_interna', 'medicina_general')\<close>.\<close>

definition especialidad_values :: "string list" where
  "especialidad_values = [''medicina_interna'', ''medicina_general'']"

text \<open>
  A request body is a JSON object: each property of it is missing, \<^verbatim>\<open>null\<close>, or a value.
  The bodies are typed by the model's columns.
\<close>

datatype 'a property = Absent | Null | Val 'a

record doctor_body =
  id_profesional :: "int property"
  nombre :: "string property"
  apellido :: "string property"
  correo :: "string property"
  telefono :: "string property"
  especialidad :: "string property"

record paciente_body =
  id_numeroCedula :: "int property"
  nombre :: "string property"
  apellido :: "string property"
  fecha_nacimiento :: "Date property"
  telefono :: "string property"

record cita_body =
  fecha_hora :: "Date property"
  id_profesional :: "int property"
  id_numeroCedula :: "int property"

text \<open>
  What a handler throws and catches: a JavaScript \<^verbatim>\<open>Error\<close>, of which the handlers read
  \<^verbatim>\<open>message\<close> and \<^verbatim>\<open>stack\<close>.
\<close>

record Error =
  name :: string
  message :: string
  stack :: string

text \<open>
  What a handler sends: \<^verbatim>\<open>res.status(n).json({message, data, error})\<close>, where \<^verbatim>\<open>data\<close>
  and \<^verbatim>\<open>error\<close> are left out of some replies.
\<close>

datatype data =
  Doctor doctor | Doctores "doctor list"
| Paciente paciente | Pacientes "paciente list"
| Cita cita | Citas "cita list"

record response =
  status :: nat
  message :: string
  data :: "data option"
  error :: "string option"

section \<open>The storage layer\<close>

text \<open>
  The handlers call the static methods of the three model classes, which are bound to the
  module-level \<^verbatim>\<open>connection\<close> of \<^verbatim>\<open>db/config.ts\<close>. Here the connection is passed to the
  handler: a record of the methods the handlers call, over a store of type \<open>'s\<close>. A method
  returns \<open>Inl\<close> of the error it throws; a method that writes returns the store it leaves.
\<close>

record 's sequelize =
  Doctor_findAll :: "'s \<Rightarrow> Error + doctor list"
  Doctor_findByPk :: "int \<Rightarrow> 's \<Rightarrow> Error + doctor option"
  Doctor_create :: "doctor_body \<Rightarrow> 's \<Rightarrow> Error + doctor \<times> 's"
  Doctor_update :: "doctor_body \<Rightarrow> int \<Rightarrow> 's \<Rightarrow> Error + 's"
  Doctor_destroy :: "int \<Rightarrow> 's \<Rightarrow> Error + 's"
  Paciente_findAll :: "'s \<Rightarrow> Error + paciente list"
  Paciente_findByPk :: "int \<Rightarrow> 's \<Rightarrow> Error + paciente option"
  Paciente_create :: "paciente_body \<Rightarrow> 's \<Rightarrow> Error + paciente \<times> 's"
  Paciente_update :: "paciente_body \<Rightarrow> int \<Rightarrow> 's \<Rightarrow> Error + 's"
  Paciente_destroy :: "int \<Rightarrow> 's \<Rightarrow> Error + 's"
  Cita_findAll :: "'s \<Rightarrow> Error + cita list"
  Cita_findOne :: "cita \<Rightarrow> 's \<Rightarrow> Error + cita option"
  Cita_create :: "cita_body \<Rightarrow> 's \<Rightarrow> Error + cita \<times> 's"
  Cita_update :: "cita_body \<Rightarrow> cita \<Rightarrow> 's \<Rightarrow> Error + 's"
  Cita_destroy :: "cita \<Rightarrow> 's \<Rightarrow> Error + 's"

subsection \<open>The tables the models declare\<close>

text \<open>
  The store of the configured connection: the tables \<^verbatim>\<open>doctor\<close>, \<^verbatim>\<open>paciente\<close> and
  \<^verbatim>\<open>cita\<close>, each the list of its rows. The columns are all \<^verbatim>\<open>allowNull: false\<close>;
  \<^verbatim>\<open>id_profesional\<close> is the primary key of \<^verbatim>\<open>doctor\<close>, \<^verbatim>\<open>id_numeroCedula\<close> that of
  \<^verbatim>\<open>paciente\<close>, and the three columns of \<^verbatim>\<open>cita\<close> together are its primary key, two of
  them foreign keys. A statement that would break one of these declarations is refused with
  the error Sequelize throws for it, and leaves the tables as they were. A value is of its
  column's type: the coercions of the database are not part of the model.
\<close>

record db =
  doctor_table :: "doctor list"
  paciente_table :: "paciente list"
  cita_table :: "cita list"

definition empty_db :: db where
  "empty_db = \<lparr>doctor_table = [], paciente_table = [], cita_table = []\<rparr>"

text \<open>
  The models do not say what a foreign key does when the row it references is deleted or
  its key rewritten, so the referential actions are parameters of the store. Neither the
  handlers nor Sequelize compare a string with the values of an \<^verbatim>\<open>ENUM\<close> column: the
  database engine does, or does not. \<^verbatim>\<open>db/config.ts\<close> configures MySQL, which refuses
  such a string in strict mode, and notes that the dialect can be changed; SQLite stores
  the string as it is. So whether the engine checks the \<^verbatim>\<open>ENUM\<close> is a parameter too.
\<close>

datatype referential_action = NO_ACTION | CASCADE

record constraints =
  doctor_onDelete :: referential_action
  doctor_onUpdate :: referential_action
  paciente_onDelete :: referential_action
  paciente_onUpdate :: referential_action
  enum_checked :: bool

text \<open>
  The errors of the store carry the name and the message Sequelize gives them. Of a stack
  only the first line is written, as name and message; the frames that follow it in a
  real stack are left out.
\<close>

definition sequelize_error :: "string \<Rightarrow> string \<Rightarrow> Error" where
  "sequelize_error n m = \<lparr>name = n, message = m, stack = n @ '': '' @ m\<rparr>"

fun join :: "string \<Rightarrow> string list \<Rightarrow> string" where
  "join sep [] = []"
| "join sep [x] = x"
| "join sep (x # y # ys) = x @ sep @ join sep (y # ys)"

definition ValidationError :: "string list \<Rightarrow> Error" where
  "ValidationError violations =
     sequelize_error ''SequelizeValidationError'' (join ('','' @ [CHR 0x0A]) violations)"

definition UniqueConstraintError :: Error where
  "UniqueConstraintError = sequelize_error ''SequelizeUniqueConstraintError'' ''Validation error''"

definition ForeignKeyConstraintError :: "string \<Rightarrow> Error" where
  "ForeignKeyConstraintError m = sequelize_error ''SequelizeForeignKeyConstraintError'' m"

definition DatabaseError :: "string \<Rightarrow> Error" where
  "DatabaseError m = sequelize_error ''SequelizeDatabaseError'' m"

definition child_row_fails :: Error where
  "child_row_fails =
     ForeignKeyConstraintError ''Cannot add or update a child row: a foreign key constraint fails''"

definition parent_row_fails :: Error where
  "parent_row_fails =
     ForeignKeyConstraintError ''Cannot delete or update a parent row: a foreign key constraint fails''"

definition data_truncated :: Error where
  "data_truncated = DatabaseError ''Data truncated for column especialidad at row 1''"

definition out_of_range :: Error where
  "out_of_range = DatabaseError ''Out of range value for column at row 1''"

definition data_too_long :: Error where
  "data_too_long = DatabaseError ''Data too long for column at row 1''"

text \<open>
  The values a column takes: \<^verbatim>\<open>DataType.INTEGER\<close> is a signed integer of 32 bits,
  \<^verbatim>\<open>DataType.STRING\<close> is \<^verbatim>\<open>VARCHAR(255)\<close>. A statement that writes another value to
  the column is refused. On update only the properties the body gives are written.
\<close>

definition in_INTEGER :: "int \<Rightarrow> bool" where
  "in_INTEGER i \<longleftrightarrow> - 2147483648 \<le> i \<and> i \<le> 2147483647"

definition in_STRING :: "string \<Rightarrow> bool" where
  "in_STRING x \<longleftrightarrow> length x \<le> 255"

fun fits :: "('a \<Rightarrow> bool) \<Rightarrow> 'a property \<Rightarrow> bool" where
  "fits P (Val v) = P v"
| "fits P Absent = True"
| "fits P Null = True"

text \<open>Validation of \<^verbatim>\<open>allowNull: false\<close>: on create a column needs a value, on update a
  property that is given must not be \<^verbatim>\<open>null\<close>.\<close>

fun value_of :: "'a property \<Rightarrow> 'a option" where
  "value_of (Val v) = Some v"
| "value_of Absent = None"
| "value_of Null = None"

fun assign :: "'a property \<Rightarrow> 'a \<Rightarrow> 'a" where
  "assign (Val v) old = v"
| "assign Absent old = old"
| "assign Null old = old"

definition cannot_be_null :: "string \<Rightarrow> string" where
  "cannot_be_null col = ''notNull Violation: '' @ col @ '' cannot be null''"

fun notNull_create :: "string \<Rightarrow> 'a property \<Rightarrow> string list" where
  "notNull_create col (Val v) = []"
| "notNull_create col Absent = [cannot_be_null col]"
| "notNull_create col Null = [cannot_be_null col]"

fun notNull_update :: "string \<Rightarrow> 'a property \<Rightarrow> string list" where
  "notNull_update col (Val v) = []"
| "notNull_update col Absent = []"
| "notNull_update col Null = [cannot_be_null col]"

subsection \<open>Table \<^verbatim>\<open>doctor\<close>\<close>

definition doctor_violations :: "(string \<Rightarrow> int property \<Rightarrow> string list) \<Rightarrow>
    (string \<Rightarrow> string property \<Rightarrow> string list) \<Rightarrow> doctor_body \<Rightarrow> string list" where
  "doctor_violations chk_int chk_str body =
     chk_int ''Doctor.id_profesional'' (doctor_body.id_profesional body) @
     chk_str ''Doctor.nombre'' (doctor_body.nombre body) @
     chk_str ''Doctor.apellido'' (doctor_body.apellido body) @
     chk_str ''Doctor.correo'' (doctor_body.correo body) @
     chk_str ''Doctor.telefono'' (doctor_body.telefono body) @
     chk_str ''Doctor.especialidad'' (doctor_body.especialidad body)"

definition build_doctor :: "doctor_body \<Rightarrow> doctor option" where
  "build_doctor body = do {
     i \<leftarrow> value_of (doctor_body.id_profesional body);
     n \<leftarrow> value_of (doctor_body.nombre body);
     a \<leftarrow> value_of (doctor_body.apellido body);
     c \<leftarrow> value_of (doctor_body.correo body);
     t \<leftarrow> value_of (doctor_body.telefono body);
     e \<leftarrow> value_of (doctor_body.especialidad body);
     Some \<lparr>doctor.id_profesional = i, doctor.nombre = n, doctor.apellido = a,
           doctor.correo = c, doctor.telefono = t, doctor.especialidad = e\<rparr>
   }"

definition set_doctor :: "doctor_body \<Rightarrow> doctor \<Rightarrow> doctor" where
  "set_doctor body d =
     \<lparr>doctor.id_profesional = assign (doctor_body.id_profesional body) (doctor.id_profesional d),
      doctor.nombre = assign (doctor_body.nombre body) (doctor.nombre d),
      doctor.apellido = assign (doctor_body.apellido body) (doctor.apellido d),
      doctor.correo = assign (doctor_body.correo body) (doctor.correo d),
      doctor.telefono = assign (doctor_body.telefono body) (doctor.telefono d),
      doctor.especialidad = assign (doctor_body.especialidad body) (doctor.especialidad d)\<rparr>"

definition doctor_keys :: "db \<Rightarrow> int list" where
  "doctor_keys s = map doctor.id_profesional (doctor_table s)"

definition paciente_keys :: "db \<Rightarrow> int list" where
  "paciente_keys s = map paciente.id_numeroCedula (paciente_table s)"

definition select_doctores :: "db \<Rightarrow> Error + doctor list" where
  "select_doctores s = Inr (doctor_table s)"

definition select_doctor :: "int \<Rightarrow> db \<Rightarrow> Error + doctor option" where
  "select_doctor pk s = Inr (find (\<lambda>d. doctor.id_profesional d = pk) (doctor_table s))"

definition doctor_strings_fit :: "doctor_body \<Rightarrow> bool" where
  "doctor_strings_fit body \<longleftrightarrow>
     fits in_STRING (doctor_body.nombre body) \<and> fits in_STRING (doctor_body.apellido body)
     \<and> fits in_STRING (doctor_body.correo body) \<and> fits in_STRING (doctor_body.telefono body)"

definition insert_doctor :: "constraints \<Rightarrow> doctor_body \<Rightarrow> db \<Rightarrow> Error + doctor \<times> db" where
  "insert_doctor k body s =
     (case build_doctor body of
        None \<Rightarrow> Inl (ValidationError (doctor_violations notNull_create notNull_create body))
      | Some d \<Rightarrow>
          if \<not> fits in_INTEGER (doctor_body.id_profesional body) then Inl out_of_range
          else if \<not> doctor_strings_fit body then Inl data_too_long
          else if enum_checked k
                  \<and> \<not> fits (\<lambda>e. e \<in> set especialidad_values) (doctor_body.especialidad body)
            then Inl data_truncated
          else if doctor.id_profesional d \<in> set (doctor_keys s) then Inl UniqueConstraintError
          else Inr (d, s\<lparr>doctor_table := doctor_table s @ [d]\<rparr>))"

text \<open>
  \<^verbatim>\<open>Doctor.update(body, {where: {id_profesional: pk}})\<close> sets every column the body gives,
  the primary key among them, in the rows with that key. A new key that another row has
  is a duplicate entry. When the key changes and rows of \<^verbatim>\<open>cita\<close> reference the old one,
  the foreign key refuses the statement or rewrites those rows with it.
\<close>

definition rekey_citas_doctor :: "int \<Rightarrow> int \<Rightarrow> cita list \<Rightarrow> cita list" where
  "rekey_citas_doctor old new cs =
     map (\<lambda>c. if cita.id_profesional c = old then c\<lparr>cita.id_profesional := new\<rparr> else c) cs"

definition update_doctor :: "constraints \<Rightarrow> doctor_body \<Rightarrow> int \<Rightarrow> db \<Rightarrow> Error + db" where
  "update_doctor k body pk s =
     (let violations = doctor_violations notNull_update notNull_update body;
          new = assign (doctor_body.id_profesional body) pk;
          rows = map (\<lambda>d. if doctor.id_profesional d = pk then set_doctor body d else d)
                   (doctor_table s);
          children = filter (\<lambda>c. cita.id_profesional c = pk) (cita_table s);
          citas = rekey_citas_doctor pk new (cita_table s)
      in if violations \<noteq> [] then Inl (ValidationError violations)
         else if pk \<notin> set (doctor_keys s) then Inr s
         else if \<not> fits in_INTEGER (doctor_body.id_profesional body) then Inl out_of_range
         else if \<not> doctor_strings_fit body then Inl data_too_long
         else if enum_checked k
                 \<and> \<not> fits (\<lambda>e. e \<in> set especialidad_values) (doctor_body.especialidad body)
           then Inl data_truncated
         else if new = pk then Inr (s\<lparr>doctor_table := rows\<rparr>)
         else if new \<in> set (doctor_keys s) then Inl UniqueConstraintError
         else if children = [] then Inr (s\<lparr>doctor_table := rows\<rparr>)
         else (case doctor_onUpdate k of
                 NO_ACTION \<Rightarrow> Inl parent_row_fails
               | CASCADE \<Rightarrow>
                   if \<exists>c \<in> set children. c\<lparr>cita.id_profesional := new\<rparr> \<in> set (cita_table s)
                   then Inl UniqueConstraintError
                   else Inr (s\<lparr>doctor_table := rows, cita_table := citas\<rparr>)))"

definition delete_doctor :: "constraints \<Rightarrow> int \<Rightarrow> db \<Rightarrow> Error + db" where
  "delete_doctor k pk s =
     (let rows = filter (\<lambda>d. doctor.id_profesional d \<noteq> pk) (doctor_table s);
          children = filter (\<lambda>c. cita.id_profesional c = pk) (cita_table s)
      in if pk \<notin> set (doctor_keys s) then Inr s
         else if children = [] then Inr (s\<lparr>doctor_table := rows\<rparr>)
         else (case doctor_onDelete k of
                 NO_ACTION \<Rightarrow> Inl parent_row_fails
               | CASCADE \<Rightarrow>
                   Inr (s\<lparr>doctor_table := rows,
                          cita_table := filter (\<lambda>c. cita.id_profesional c \<noteq> pk) (cita_table s)\<rparr>)))"

subsection \<open>Table \<^verbatim>\<open>paciente\<close>\<close>

definition paciente_violations :: "(string \<Rightarrow> int property \<Rightarrow> string list) \<Rightarrow>
    (string \<Rightarrow> string property \<Rightarrow> string list) \<Rightarrow> paciente_body \<Rightarrow> string list" where
  "paciente_violations chk_int chk_str body =
     chk_int ''Paciente.id_numeroCedula'' (paciente_body.id_numeroCedula body) @
     chk_str ''Paciente.nombre'' (paciente_body.nombre body) @
     chk_str ''Paciente.apellido'' (paciente_body.apellido body) @
     chk_int ''Paciente.fecha_nacimiento'' (paciente_body.fecha_nacimiento body) @
     chk_str ''Paciente.telefono'' (paciente_body.telefono body)"

definition build_paciente :: "paciente_body \<Rightarrow> paciente option" where
  "build_paciente body = do {
     i \<leftarrow> value_of (paciente_body.id_numeroCedula body);
     n \<leftarrow> value_of (paciente_body.nombre body);
     a \<leftarrow> value_of (paciente_body.apellido body);
     f \<leftarrow> value_of (paciente_body.fecha_nacimiento body);
     t \<leftarrow> value_of (paciente_body.telefono body);
     Some \<lparr>paciente.id_numeroCedula = i, paciente.nombre = n, paciente.apellido = a,
           paciente.fecha_nacimiento = f, paciente.telefono = t\<rparr>
   }"

definition set_paciente :: "paciente_body \<Rightarrow> paciente \<Rightarrow> paciente" where
  "set_paciente body p =
     \<lparr>paciente.id_numeroCedula =
        assign (paciente_body.id_numeroCedula body) (paciente.id_numeroCedula p),
      paciente.nombre = assign (paciente_body.nombre body) (paciente.nombre p),
      paciente.apellido = assign (paciente_body.apellido body) (paciente.apellido p),
      paciente.fecha_nacimiento =
        assign (paciente_body.fecha_nacimiento body) (paciente.fecha_nacimiento p),
      paciente.telefono = assign (paciente_body.telefono body) (paciente.telefono p)\<rparr>"

definition select_pacientes :: "db \<Rightarrow> Error + paciente list" where
  "select_pacientes s = Inr (paciente_table s)"

definition select_paciente :: "int \<Rightarrow> db \<Rightarrow> Error + paciente option" where
  "select_paciente pk s = Inr (find (\<lambda>p. paciente.id_numeroCedula p = pk) (paciente_table s))"

definition paciente_strings_fit :: "paciente_body \<Rightarrow> bool" where
  "paciente_strings_fit body \<longleftrightarrow>
     fits in_STRING (paciente_body.nombre body) \<and> fits in_STRING (paciente_body.apellido body)
     \<and> fits in_STRING (paciente_body.telefono body)"

definition insert_paciente :: "paciente_body \<Rightarrow> db \<Rightarrow> Error + paciente \<times> db" where
  "insert_paciente body s =
     (case build_paciente body of
        None \<Rightarrow> Inl (ValidationError (paciente_violations notNull_create notNull_create body))
      | Some p \<Rightarrow>
          if \<not> fits in_INTEGER (paciente_body.id_numeroCedula body) then Inl out_of_range
          else if \<not> paciente_strings_fit body then Inl data_too_long
          else if paciente.id_numeroCedula p \<in> set (paciente_keys s) then Inl UniqueConstraintError
          else Inr (p, s\<lparr>paciente_table := paciente_table s @ [p]\<rparr>))"

definition rekey_citas_paciente :: "int \<Rightarrow> int \<Rightarrow> cita list \<Rightarrow> cita list" where
  "rekey_citas_paciente old new cs =
     map (\<lambda>c. if cita.id_numeroCedula c = old then c\<lparr>cita.id_numeroCedula := new\<rparr> else c) cs"

definition update_paciente :: "constraints \<Rightarrow> paciente_body \<Rightarrow> int \<Rightarrow> db \<Rightarrow> Error + db" where
  "update_paciente k body pk s =
     (let violations = paciente_violations notNull_update notNull_update body;
          new = assign (paciente_body.id_numeroCedula body) pk;
          rows = map (\<lambda>p. if paciente.id_numeroCedula p = pk then set_paciente body p else p)
                   (paciente_table s);
          children = filter (\<lambda>c. cita.id_numeroCedula c = pk) (cita_table s);
          citas = rekey_citas_paciente pk new (cita_table s)
      in if violations \<noteq> [] then Inl (ValidationError violations)
         else if pk \<notin> set (paciente_keys s) then Inr s
         else if \<not> fits in_INTEGER (paciente_body.id_numeroCedula body) then Inl out_of_range
         else if \<not> paciente_strings_fit body then Inl data_too_long
         else if new = pk then Inr (s\<lparr>paciente_table := rows\<rparr>)
         else if new \<in> set (paciente_keys s) then Inl UniqueConstraintError
         else if children = [] then Inr (s\<lparr>paciente_table := rows\<rparr>)
         else (case paciente_onUpdate k of
                 NO_ACTION \<Rightarrow> Inl parent_row_fails
               | CASCADE \<Rightarrow>
                   if \<exists>c \<in> set children. c\<lparr>cita.id_numeroCedula := new\<rparr> \<in> set (cita_table s)
                   then Inl UniqueConstraintError
                   else Inr (s\<lparr>paciente_table := rows, cita_table := citas\<rparr>)))"

definition delete_paciente :: "constraints \<Rightarrow> int \<Rightarrow> db \<Rightarrow> Error + db" where
  "delete_paciente k pk s =
     (let rows = filter (\<lambda>p. paciente.id_numeroCedula p \<noteq> pk) (paciente_table s);
          children = filter (\<lambda>c. cita.id_numeroCedula c = pk) (cita_table s)
      in if pk \<notin> set (paciente_keys s) then Inr s
         else if children = [] then Inr (s\<lparr>paciente_table := rows\<rparr>)
         else (case paciente_onDelete k of
                 NO_ACTION \<Rightarrow> Inl parent_row_fails
               | CASCADE \<Rightarrow>
                   Inr (s\<lparr>paciente_table := rows,
                          cita_table := filter (\<lambda>c. cita.id_numeroCedula c \<noteq> pk) (cita_table s)\<rparr>)))"

subsection \<open>Table \<^verbatim>\<open>cita\<close>\<close>

text \<open>
  A row of \<^verbatim>\<open>cita\<close> is its primary key: \<^verbatim>\<open>where: {fecha_hora, id_profesional,
  id_numeroCedula}\<close> selects the rows equal to the three values asked for. Its two
  integer columns take keys of \<^verbatim>\<open>doctor\<close> and \<^verbatim>\<open>paciente\<close>, which the statements on those
  tables keep within \<^verbatim>\<open>INTEGER\<close>.
\<close>

definition cita_violations :: "(string \<Rightarrow> int property \<Rightarrow> string list) \<Rightarrow> cita_body \<Rightarrow> string list" where
  "cita_violations chk body =
     chk ''Cita.fecha_hora'' (cita_body.fecha_hora body) @
     chk ''Cita.id_profesional'' (cita_body.id_profesional body) @
     chk ''Cita.id_numeroCedula'' (cita_body.id_numeroCedula body)"

definition build_cita :: "cita_body \<Rightarrow> cita option" where
  "build_cita body = do {
     f \<leftarrow> value_of (cita_body.fecha_hora body);
     d \<leftarrow> value_of (cita_body.id_profesional body);
     p \<leftarrow> value_of (cita_body.id_numeroCedula body);
     Some \<lparr>cita.fecha_hora = f, cita.id_profesional = d, cita.id_numeroCedula = p\<rparr>
   }"

definition set_cita :: "cita_body \<Rightarrow> cita \<Rightarrow> cita" where
  "set_cita body c =
     \<lparr>cita.fecha_hora = assign (cita_body.fecha_hora body) (cita.fecha_hora c),
      cita.id_profesional = assign (cita_body.id_profesional body) (cita.id_profesional c),
      cita.id_numeroCedula = assign (cita_body.id_numeroCedula body) (cita.id_numeroCedula c)\<rparr>"

definition select_citas :: "db \<Rightarrow> Error + cita list" where
  "select_citas s = Inr (cita_table s)"

definition select_cita :: "cita \<Rightarrow> db \<Rightarrow> Error + cita option" where
  "select_cita wh s = Inr (find (\<lambda>c. c = wh) (cita_table s))"

definition insert_cita :: "cita_body \<Rightarrow> db \<Rightarrow> Error + cita \<times> db" where
  "insert_cita body s =
     (case build_cita body of
        None \<Rightarrow> Inl (ValidationError (cita_violations notNull_create body))
      | Some c \<Rightarrow>
          if c \<in> set (cita_table s) then Inl UniqueConstraintError
          else if cita.id_profesional c \<notin> set (doctor_keys s)
                  \<or> cita.id_numeroCedula c \<notin> set (paciente_keys s)
            then Inl child_row_fails
          else Inr (c, s\<lparr>cita_table := cita_table s @ [c]\<rparr>))"

text \<open>
  \<^verbatim>\<open>Cita.update(body, {where})\<close>: the row asked for becomes the row the body makes of it.
  A row that stays as it was is not written; a new key that is in the table is a
  duplicate entry; a foreign key column that changed must reference an existing row.
\<close>

definition update_cita :: "cita_body \<Rightarrow> cita \<Rightarrow> db \<Rightarrow> Error + db" where
  "update_cita body wh s =
     (let violations = cita_violations notNull_update body;
          new = set_cita body wh
      in if violations \<noteq> [] then Inl (ValidationError violations)
         else if wh \<notin> set (cita_table s) \<or> new = wh then Inr s
         else if new \<in> set (cita_table s) then Inl UniqueConstraintError
         else if (cita.id_profesional new \<noteq> cita.id_profesional wh
                    \<and> cita.id_profesional new \<notin> set (doctor_keys s))
                 \<or> (cita.id_numeroCedula new \<noteq> cita.id_numeroCedula wh
                    \<and> cita.id_numeroCedula new \<notin> set (paciente_keys s))
           then Inl child_row_fails
         else Inr (s\<lparr>cita_table := map (\<lambda>c. if c = wh then new else c) (cita_table s)\<rparr>))"

definition delete_cita :: "cita \<Rightarrow> db \<Rightarrow> Error + db" where
  "delete_cita wh s = Inr (s\<lparr>cita_table := filter (\<lambda>c. c \<noteq> wh) (cita_table s)\<rparr>)"

subsection \<open>The connection\<close>

text \<open>The connection of \<^verbatim>\<open>db/config.ts\<close>, with the three models loaded.\<close>

definition connection :: "constraints \<Rightarrow> db sequelize" where
  "connection k =
     \<lparr>Doctor_findAll = select_doctores,
      Doctor_findByPk = select_doctor,
      Doctor_create = insert_doctor k,
      Doctor_update = update_doctor k,
      Doctor_destroy = delete_doctor k,
      Paciente_findAll = select_pacientes,
      Paciente_findByPk = select_paciente,
      Paciente_create = insert_paciente,
      Paciente_update = update_paciente k,
      Paciente_destroy = delete_paciente k,
      Cita_findAll = select_citas,
      Cita_findOne = select_cita,
      Cita_create = insert_cita,
      Cita_update = update_cita,
      Cita_destroy = delete_cita\<rparr>"

text \<open>The same connection when the database cannot be reached: every call is refused.\<close>

definition ConnectionRefusedError :: Error where
  "ConnectionRefusedError = sequelize_error ''SequelizeConnectionRefusedError'' ''connect ECONNREFUSED''"

definition unreachable :: "db sequelize" where
  "unreachable =
     \<lparr>Doctor_findAll = (\<lambda>s. Inl ConnectionRefusedError),
      Doctor_findByPk = (\<lambda>pk s. Inl ConnectionRefusedError),
      Doctor_create = (\<lambda>body s. Inl ConnectionRefusedError),
      Doctor_update = (\<lambda>body pk s. Inl ConnectionRefusedError),
      Doctor_destroy = (\<lambda>pk s. Inl ConnectionRefusedError),
      Paciente_findAll = (\<lambda>s. Inl ConnectionRefusedError),
      Paciente_findByPk = (\<lambda>pk s. Inl ConnectionRefusedError),
      Paciente_create = (\<lambda>body s. Inl ConnectionRefusedError),
      Paciente_update = (\<lambda>body pk s. Inl ConnectionRefusedError),
      Paciente_destroy = (\<lambda>pk s. Inl ConnectionRefusedError),
      Cita_findAll = (\<lambda>s. Inl ConnectionRefusedError),
      Cita_findOne = (\<lambda>wh s. Inl ConnectionRefusedError),
      Cita_create = (\<lambda>body s. Inl ConnectionRefusedError),
      Cita_update = (\<lambda>body wh s. Inl ConnectionRefusedError),
      Cita_destroy = (\<lambda>wh s. Inl ConnectionRefusedError)\<rparr>"

text \<open>A connection that is lost after the handler's first query: reads answer, writes fail.\<close>

definition ConnectionLostError :: Error where
  "ConnectionLostError = sequelize_error ''SequelizeConnectionError'' ''Connection lost''"

definition lost_after_read :: "constraints \<Rightarrow> db sequelize" where
  "lost_after_read k =
     (connection k)
       \<lparr>Doctor_create := (\<lambda>body s. Inl ConnectionLostError),
        Doctor_update := (\<lambda>body pk s. Inl ConnectionLostError),
        Doctor_destroy := (\<lambda>pk s. Inl ConnectionLostError),
        Paciente_create := (\<lambda>body s. Inl ConnectionLostError),
        Paciente_update := (\<lambda>body pk s. Inl ConnectionLostError),
        Paciente_destroy := (\<lambda>pk s. Inl ConnectionLostError),
        Cita_create := (\<lambda>body s. Inl ConnectionLostError),
        Cita_update := (\<lambda>body wh s. Inl ConnectionLostError),
        Cita_destroy := (\<lambda>wh s. Inl ConnectionLostError)\<rparr>"

section \<open>The handlers\<close>

text \<open>
  A handler takes the connection, the request's parameters and body, and the store, and
  returns the response it sends and the store it leaves. The \<^verbatim>\<open>try\<close> block is the
  \<open>Inr\<close> branches, the \<^verbatim>\<open>catch\<close> block the \<open>Inl\<close> branches: a call that throws leaves the
  store as it was. Route parameters (\<^verbatim>\<open>req.params.id\<close>, \<^verbatim>\<open>req.query\<close>) are taken as the
  values they denote.
\<close>

definition Operacion_exitosa :: string where
  "Operacion_exitosa = ''Operaci'' @ [CHR 0xF3] @ ''n exitosa''"

subsection \<open>\<^verbatim>\<open>doctor.controller.ts\<close>\<close>

definition getDoctores :: "'s sequelize \<Rightarrow> 's \<Rightarrow> response \<times> 's" where
  "getDoctores M s =
     (case Doctor_findAll M s of
        Inr doctores \<Rightarrow>
          (\<lparr>status = 200, message = Operacion_exitosa,
            data = Some (Doctores doctores), error = None\<rparr>, s)
      | Inl err \<Rightarrow>
          (\<lparr>status = 500, message = ''Error al obtener los doctores'',
            data = None, error = Some (Error.message err)\<rparr>, s))"

definition getDoctorById :: "'s sequelize \<Rightarrow> int \<Rightarrow> 's \<Rightarrow> response \<times> 's" where
  "getDoctorById M id' s =
     (case Doctor_findByPk M id' s of
        Inr (Some doctor) \<Rightarrow>
          (\<lparr>status = 200, message = ''Doctor encontrado'',
            data = Some (Doctor doctor), error = None\<rparr>, s)
      | Inr None \<Rightarrow>
          (\<lparr>status = 404, message = ''Doctor no encontrado'', data = None, error = None\<rparr>, s)
      | Inl err \<Rightarrow>
          (\<lparr>status = 500, message = ''Error al obtener los doctores'',
            data = None, error = Some (Error.message err)\<rparr>, s))"

definition createDoctor :: "'s sequelize \<Rightarrow> doctor_body \<Rightarrow> 's \<Rightarrow> response \<times> 's" where
  "createDoctor M body s =
     (case Doctor_create M body s of
        Inr (doctor, s') \<Rightarrow>
          (\<lparr>status = 201, message = ''Doctor creado!'',
            data = Some (Doctor doctor), error = None\<rparr>, s')
      | Inl err \<Rightarrow>
          (\<lparr>status = 500, message = ''No se pudo crear el doctor'',
            data = None, error = Some (Error.stack err)\<rparr>, s))"

definition updateDoctor :: "'s sequelize \<Rightarrow> int \<Rightarrow> doctor_body \<Rightarrow> 's \<Rightarrow> response \<times> 's" where
  "updateDoctor M id' body s =
     (case Doctor_findByPk M id' s of
        Inr (Some doctor) \<Rightarrow>
          (case Doctor_update M body id' s of
             Inr s' \<Rightarrow>
               (\<lparr>status = 200, message = ''Doctor actualizado'', data = None, error = None\<rparr>, s')
           | Inl err \<Rightarrow>
               (\<lparr>status = 500, message = ''Error al modificar el doctor'',
                 data = None, error = Some (Error.message err)\<rparr>, s))
      | Inr None \<Rightarrow>
          (\<lparr>status = 404, message = ''Doctor no existe'', data = None, error = None\<rparr>, s)
      | Inl err \<Rightarrow>
          (\<lparr>status = 500, message = ''Error al modificar el doctor'',
            data = None, error = Some (Error.message err)\<rparr>, s))"

definition deleteDoctor :: "'s sequelize \<Rightarrow> int \<Rightarrow> 's \<Rightarrow> response \<times> 's" where
  "deleteDoctor M id' s =
     (case Doctor_findByPk M id' s of
        Inr (Some doctor) \<Rightarrow>
          (case Doctor_destroy M id' s of
             Inr s' \<Rightarrow>
               (\<lparr>status = 200, message = ''Doctor eliminado'', data = None, error = None\<rparr>, s')
           | Inl err \<Rightarrow>
               (\<lparr>status = 500, message = ''Error al eliminar el doctor'',
                 data = None, error = Some (Error.message err)\<rparr>, s))
      | Inr None \<Rightarrow>
          (\<lparr>status = 404, message = ''Doctor no existe'', data = None, error = None\<rparr>, s)
      | Inl err \<Rightarrow>
          (\<lparr>status = 500, message = ''Error al eliminar el doctor'',
            data = None, error = Some (Error.message err)\<rparr>, s))"

subsection \<open>The patient controller\<close>

definition getPacientes :: "'s sequelize \<Rightarrow> 's \<Rightarrow> response \<times> 's" where
  "getPacientes M s =
     (case Paciente_findAll M s of
        Inr pacientes \<Rightarrow>
          (\<lparr>status = 200, message = Operacion_exitosa,
            data = Some (Pacientes pacientes), error = None\<rparr>, s)
      | Inl err \<Rightarrow>
          (\<lparr>status = 500, message = ''Error al obtener los pacientes'',
            data = None, error = Some (Error.message err)\<rparr>, s))"

definition getPacienteById :: "'s sequelize \<Rightarrow> int \<Rightarrow> 's \<Rightarrow> response \<times> 's" where
  "getPacienteById M id' s =
     (case Paciente_findByPk M id' s of
        Inr (Some paciente) \<Rightarrow>
          (\<lparr>status = 200, message = ''Paciente encontrado'',
            data = Some (Paciente paciente), error = None\<rparr>, s)
      | Inr None \<Rightarrow>
          (\<lparr>status = 404, message = ''Paciente no encontrado'', data = None, error = None\<rparr>, s)
      | Inl err \<Rightarrow>
          (\<lparr>status = 500, message = ''Error al obtener los pacientes'',
            data = None, error = Some (Error.message err)\<rparr>, s))"

definition createPaciente :: "'s sequelize \<Rightarrow> paciente_body \<Rightarrow> 's \<Rightarrow> response \<times> 's" where
  "createPaciente M body s =
     (case Paciente_create M body s of
        Inr (paciente, s') \<Rightarrow>
          (\<lparr>status = 201, message = ''Paciente creado!'',
            data = Some (Paciente paciente), error = None\<rparr>, s')
      | Inl err \<Rightarrow>
          (\<lparr>status = 500, message = ''No se pudo crear el paciente'',
            data = None, error = Some (Error.stack err)\<rparr>, s))"

definition updatePaciente :: "'s sequelize \<Rightarrow> int \<Rightarrow> paciente_body \<Rightarrow> 's \<Rightarrow> response \<times> 's" where
  "updatePaciente M id' body s =
     (case Paciente_findByPk M id' s of
        Inr (Some paciente) \<Rightarrow>
          (case Paciente_update M body id' s of
             Inr s' \<Rightarrow>
               (\<lparr>status = 200, message = ''Paciente actualizado'', data = None, error = None\<rparr>, s')
           | Inl err \<Rightarrow>
               (\<lparr>status = 500, message = ''Paciente modificado'',
                 data = None, error = Some (Error.message err)\<rparr>, s))
      | Inr None \<Rightarrow>
          (\<lparr>status = 404, message = ''Paciente no existe'', data = None, error = None\<rparr>, s)
      | Inl err \<Rightarrow>
          (\<lparr>status = 500, message = ''Paciente modificado'',
            data = None, error = Some (Error.message err)\<rparr>, s))"

definition deletePaciente :: "'s sequelize \<Rightarrow> int \<Rightarrow> 's \<Rightarrow> response \<times> 's" where
  "deletePaciente M id' s =
     (case Paciente_findByPk M id' s of
        Inr (Some paciente) \<Rightarrow>
          (case Paciente_destroy M id' s of
             Inr s' \<Rightarrow>
               (\<lparr>status = 200, message = ''Paciente eliminado'', data = None, error = None\<rparr>, s')
           | Inl err \<Rightarrow>
               (\<lparr>status = 500, message = ''Error al eliminar el paciente'',
                 data = None, error = Some (Error.message err)\<rparr>, s))
      | Inr None \<Rightarrow>
          (\<lparr>status = 404, message = ''Paciente no existe'', data = None, error = None\<rparr>, s)
      | Inl err \<Rightarrow>
          (\<lparr>status = 500, message = ''Error al eliminar el paciente'',
            data = None, error = Some (Error.message err)\<rparr>, s))"

subsection \<open>\<^verbatim>\<open>citas.controller.ts\<close>\<close>

text \<open>The query \<^verbatim>\<open>{profesional, paciente, fecha}\<close> makes the \<^verbatim>\<open>where\<close> clause of the
  three handlers that take it.\<close>

definition where_cita :: "int \<Rightarrow> int \<Rightarrow> Date \<Rightarrow> cita" where
  "where_cita profesional paciente fecha =
     \<lparr>cita.fecha_hora = fecha, cita.id_profesional = profesional,
      cita.id_numeroCedula = paciente\<rparr>"

definition getCitas :: "'s sequelize \<Rightarrow> 's \<Rightarrow> response \<times> 's" where
  "getCitas M s =
     (case Cita_findAll M s of
        Inr citas \<Rightarrow>
          (\<lparr>status = 200, message = Operacion_exitosa,
            data = Some (Citas citas), error = None\<rparr>, s)
      | Inl err \<Rightarrow>
          (\<lparr>status = 500, message = ''Error al obtener las citas'',
            data = None, error = Some (Error.message err)\<rparr>, s))"

definition getOneCita :: "'s sequelize \<Rightarrow> int \<Rightarrow> int \<Rightarrow> Date \<Rightarrow> 's \<Rightarrow> response \<times> 's" where
  "getOneCita M profesional paciente fecha s =
     (case Cita_findOne M (where_cita profesional paciente fecha) s of
        Inr (Some cita) \<Rightarrow>
          (\<lparr>status = 200, message = ''Cita encontrada'',
            data = Some (Cita cita), error = None\<rparr>, s)
      | Inr None \<Rightarrow>
          (\<lparr>status = 404, message = ''Cita no encontrada'', data = None, error = None\<rparr>, s)
      | Inl err \<Rightarrow>
          (\<lparr>status = 500, message = ''Error al obtener los doctores'',
            data = None, error = Some (Error.message err)\<rparr>, s))"

definition createCita :: "'s sequelize \<Rightarrow> cita_body \<Rightarrow> 's \<Rightarrow> response \<times> 's" where
  "createCita M body s =
     (case Cita_create M body s of
        Inr (cita, s') \<Rightarrow>
          (\<lparr>status = 201, message = ''Cita creada!'',
            data = Some (Cita cita), error = None\<rparr>, s')
      | Inl err \<Rightarrow>
          (\<lparr>status = 500, message = ''No se pudo crear la cita'',
            data = None, error = Some (Error.message err)\<rparr>, s))"

definition updateCita ::
    "'s sequelize \<Rightarrow> int \<Rightarrow> int \<Rightarrow> Date \<Rightarrow> cita_body \<Rightarrow> 's \<Rightarrow> response \<times> 's" where
  "updateCita M profesional paciente fecha body s =
     (case Cita_findOne M (where_cita profesional paciente fecha) s of
        Inr (Some cita) \<Rightarrow>
          (case Cita_update M body (where_cita profesional paciente fecha) s of
             Inr s' \<Rightarrow>
               (\<lparr>status = 200, message = ''Cita actualizada'', data = None, error = None\<rparr>, s')
           | Inl err \<Rightarrow>
               (\<lparr>status = 500, message = ''Error al modificar la cita'',
                 data = None, error = Some (Error.message err)\<rparr>, s))
      | Inr None \<Rightarrow>
          (\<lparr>status = 404, message = ''Cita no existe'', data = None, error = None\<rparr>, s)
      | Inl err \<Rightarrow>
          (\<lparr>status = 500, message = ''Error al modificar la cita'',
            data = None, error = Some (Error.message err)\<rparr>, s))"

definition deleteCita :: "'s sequelize \<Rightarrow> int \<Rightarrow> int \<Rightarrow> Date \<Rightarrow> 's \<Rightarrow> response \<times> 's" where
  "deleteCita M profesional paciente fecha s =
     (case Cita_findOne M (where_cita profesional paciente fecha) s of
        Inr (Some cita) \<Rightarrow>
          (case Cita_destroy M (where_cita profesional paciente fecha) s of
             Inr s' \<Rightarrow>
               (\<lparr>status = 200, message = ''Cita eliminada'', data = None, error = None\<rparr>, s')
           | Inl err \<Rightarrow>
               (\<lparr>status = 500, message = ''Error al eliminar la cita'',
                 data = None, error = Some (Error.message err)\<rparr>, s))
      | Inr None \<Rightarrow>
          (\<lparr>status = 404, message = ''Cita no existe'', data = None, error = None\<rparr>, s)
      | Inl err \<Rightarrow>
          (\<lparr>status = 500, message = ''Error al eliminar la cita'',
            data = None, error = Some (Error.message err)\<rparr>, s))"

section \<open>Requests and reachable stores\<close>

text \<open>
  Modelled from the spec: the route table of its section 6 (the router module is not among
  the sources). One request per handler, and the store a sequence of requests leaves behind.
\<close>

datatype request =
  GET_doctores
| GET_doctor int
| POST_doctor doctor_body
| PUT_doctor int doctor_body
| DELETE_doctor int
| GET_pacientes
| GET_paciente int
| POST_paciente paciente_body
| PUT_paciente int paciente_body
| DELETE_paciente int
| GET_citas
| GET_cita int int Date
| POST_cita cita_body
| PUT_cita int int Date cita_body
| DELETE_cita int int Date

fun handle :: "'s sequelize \<Rightarrow> request \<Rightarrow> 's \<Rightarrow> response \<times> 's" where
  "handle M GET_doctores s = getDoctores M s"
| "handle M (GET_doctor id') s = getDoctorById M id' s"
| "handle M (POST_doctor body) s = createDoctor M body s"
| "handle M (PUT_doctor id' body) s = updateDoctor M id' body s"
| "handle M (DELETE_doctor id') s = deleteDoctor M id' s"
| "handle M GET_pacientes s = getPacientes M s"
| "handle M (GET_paciente id') s = getPacienteById M id' s"
| "handle M (POST_paciente body) s = createPaciente M body s"
| "handle M (PUT_paciente id' body) s = updatePaciente M id' body s"
| "handle M (DELETE_paciente id') s = deletePaciente M id' s"
| "handle M GET_citas s = getCitas M s"
| "handle M (GET_cita profesional paciente fecha) s = getOneCita M profesional paciente fecha s"
| "handle M (POST_cita body) s = createCita M body s"
| "handle M (PUT_cita profesional paciente fecha body) s =
     updateCita M profesional paciente fecha body s"
| "handle M (DELETE_cita profesional paciente fecha) s =
     deleteCita M profesional paciente fecha s"

fun serve :: "'s sequelize \<Rightarrow> request list \<Rightarrow> 's \<Rightarrow> 's" where
  "serve M [] s = s"
| "serve M (r # rs) s = serve M rs (snd (handle M r s))"

section \<open>Payloads and invariants\<close>

text \<open>The body that gives every column of a row its value: a complete payload.\<close>

definition doctor_payload :: "doctor \<Rightarrow> doctor_body" where
  "doctor_payload d =
     \<lparr>doctor_body.id_profesional = Val (doctor.id_profesional d),
      doctor_body.nombre = Val (doctor.nombre d),
      doctor_body.apellido = Val (doctor.apellido d),
      doctor_body.correo = Val (doctor.correo d),
      doctor_body.telefono = Val (doctor.telefono d),
      doctor_body.especialidad = Val (doctor.especialidad d)\<rparr>"

definition paciente_payload :: "paciente \<Rightarrow> paciente_body" where
  "paciente_payload p =
     \<lparr>paciente_body.id_numeroCedula = Val (paciente.id_numeroCedula p),
      paciente_body.nombre = Val (paciente.nombre p),
      paciente_body.apellido = Val (paciente.apellido p),
      paciente_body.fecha_nacimiento = Val (paciente.fecha_nacimiento p),
      paciente_body.telefono = Val (paciente.telefono p)\<rparr>"

definition cita_payload :: "cita \<Rightarrow> cita_body" where
  "cita_payload c =
     \<lparr>cita_body.fecha_hora = Val (cita.fecha_hora c),
      cita_body.id_profesional = Val (cita.id_profesional c),
      cita_body.id_numeroCedula = Val (cita.id_numeroCedula c)\<rparr>"

text \<open>A row of \<^verbatim>\<open>doctor\<close> whose values its \<^verbatim>\<open>INTEGER\<close> and \<^verbatim>\<open>STRING\<close> columns take.\<close>

definition doctor_in_columns :: "doctor \<Rightarrow> bool" where
  "doctor_in_columns d \<longleftrightarrow>
     in_INTEGER (doctor.id_profesional d) \<and> in_STRING (doctor.nombre d)
     \<and> in_STRING (doctor.apellido d) \<and> in_STRING (doctor.correo d)
     \<and> in_STRING (doctor.telefono d)"

text \<open>The error envelope \<^verbatim>\<open>{message, error}\<close> sent with status 500.\<close>

definition error_envelope :: "string \<Rightarrow> string \<Rightarrow> response" where
  "error_envelope m e = \<lparr>status = 500, message = m, data = None, error = Some e\<rparr>"

text \<open>
  The two invariants of the table \<^verbatim>\<open>cita\<close>: every row references a stored doctor and a
  stored patient, and no two rows have the same three values.
\<close>

definition references_ok :: "db \<Rightarrow> bool" where
  "references_ok s \<longleftrightarrow>
     (\<forall>c \<in> set (cita_table s).
        cita.id_profesional c \<in> set (doctor_keys s) \<and> cita.id_numeroCedula c \<in> set (paciente_keys s))"

definition cita_unique :: "db \<Rightarrow> bool" where
  "cita_unique s \<longleftrightarrow> distinct (cita_table s)"

section \<open>Sample data\<close>

text \<open>
  The doctor of the specification's scenario, a second doctor with the same key, a third
  doctor, two patients, and appointments between them at 2024-01-01T10:00:00Z; stores whose
  foreign keys refuse (\<open>restrict\<close>) or follow (\<open>cascade\<close>) the loss of a referenced row, and
  one whose engine does not check the \<^verbatim>\<open>ENUM\<close> column (\<open>lenient\<close>).
\<close>

definition restrict :: constraints where
  "restrict = \<lparr>doctor_onDelete = NO_ACTION, doctor_onUpdate = NO_ACTION,
     paciente_onDelete = NO_ACTION, paciente_onUpdate = NO_ACTION, enum_checked = True\<rparr>"

definition cascade :: constraints where
  "cascade = \<lparr>doctor_onDelete = CASCADE, doctor_onUpdate = CASCADE,
     paciente_onDelete = CASCADE, paciente_onUpdate = CASCADE, enum_checked = True\<rparr>"

definition lenient :: constraints where
  "lenient = restrict\<lparr>enum_checked := False\<rparr>"

definition ana :: doctor where
  "ana = \<lparr>doctor.id_profesional = 1, doctor.nombre = ''Ana'', doctor.apellido = ''Ruiz'',
     doctor.correo = ''a@x.com'', doctor.telefono = ''555'',
     doctor.especialidad = ''medicina_general''\<rparr>"

definition luis :: doctor where
  "luis = \<lparr>doctor.id_profesional = 1, doctor.nombre = ''Luis'', doctor.apellido = ''Mora'',
     doctor.correo = ''l@x.com'', doctor.telefono = ''777'',
     doctor.especialidad = ''medicina_interna''\<rparr>"

definition berta :: doctor where
  "berta = \<lparr>doctor.id_profesional = 2, doctor.nombre = ''Berta'', doctor.apellido = ''Gil'',
     doctor.correo = ''b@x.com'', doctor.telefono = ''556'',
     doctor.especialidad = ''medicina_interna''\<rparr>"

definition pablo :: paciente where
  "pablo = \<lparr>paciente.id_numeroCedula = 10, paciente.nombre = ''Pablo'',
     paciente.apellido = ''Soto'', paciente.fecha_nacimiento = 631152000,
     paciente.telefono = ''311''\<rparr>"

definition paula :: paciente where
  "paula = \<lparr>paciente.id_numeroCedula = 11, paciente.nombre = ''Paula'',
     paciente.apellido = ''Rey'', paciente.fecha_nacimiento = 662688000,
     paciente.telefono = ''322''\<rparr>"

definition ana_pablo :: cita where
  "ana_pablo = \<lparr>cita.fecha_hora = 1704103200, cita.id_profesional = 1, cita.id_numeroCedula = 10\<rparr>"

definition ana_paula :: cita where
  "ana_paula = \<lparr>cita.fecha_hora = 1704103200, cita.id_profesional = 1, cita.id_numeroCedula = 11\<rparr>"

definition berta_pablo :: cita where
  "berta_pablo = \<lparr>cita.fecha_hora = 1704103200, cita.id_profesional = 2, cita.id_numeroCedula = 10\<rparr>"

definition nobody :: cita where
  "nobody = \<lparr>cita.fecha_hora = 1704103200, cita.id_profesional = 7, cita.id_numeroCedula = 10\<rparr>"

definition staff :: db where
  "staff = \<lparr>doctor_table = [ana, berta], paciente_table = [pablo, paula], cita_table = []\<rparr>"

definition booked :: db where
  "booked = staff\<lparr>cita_table := [ana_pablo]\<rparr>"

definition first_day :: "request list" where
  "first_day = [POST_doctor (doctor_payload ana), POST_doctor (doctor_payload berta),
     POST_paciente (paciente_payload pablo), POST_paciente (paciente_payload paula),
     POST_cita (cita_payload ana_pablo)]"

text \<open>Bodies: an \<open>especialidad\<close> outside the enumeration, a missing \<open>correo\<close>, and the
  bodies that give no property.\<close>

definition cardiologa :: doctor_body where
  "cardiologa = (doctor_payload ana)\<lparr>doctor_body.especialidad := Val ''cardiologia''\<rparr>"

definition sin_correo :: doctor_body where
  "sin_correo = (doctor_payload ana)\<lparr>doctor_body.correo := Absent\<rparr>"

definition empty_doctor_body :: doctor_body where
  "empty_doctor_body = \<lparr>doctor_body.id_profesional = Absent, doctor_body.nombre = Absent,
     doctor_body.apellido = Absent, doctor_body.correo = Absent,
     doctor_body.telefono = Absent, doctor_body.especialidad = Absent\<rparr>"

definition empty_paciente_body :: paciente_body where
  "empty_paciente_body = \<lparr>paciente_body.id_numeroCedula = Absent, paciente_body.nombre = Absent,
     paciente_body.apellido = Absent, paciente_body.fecha_nacimiento = Absent,
     paciente_body.telefono = Absent\<rparr>"

definition empty_cita_body :: cita_body where
  "empty_cita_body = \<lparr>cita_body.fecha_hora = Absent, cita_body.id_profesional = Absent,
     cita_body.id_numeroCedula = Absent\<rparr>"

section \<open>Unfolding the model\<close>

lemmas sample_defs = ana_def luis_def berta_def pablo_def paula_def ana_pablo_def ana_paula_def
  berta_pablo_def nobody_def staff_def booked_def first_day_def restrict_def cascade_def lenient_def
  empty_db_def doctor_payload_def paciente_payload_def cita_payload_def especialidad_values_def
  cardiologa_def sin_correo_def empty_doctor_body_def empty_paciente_body_def empty_cita_body_def

lemmas store_defs = connection_def unreachable_def lost_after_read_def
  select_doctores_def select_doctor_def insert_doctor_def update_doctor_def delete_doctor_def
  select_pacientes_def select_paciente_def insert_paciente_def update_paciente_def delete_paciente_def
  select_citas_def select_cita_def insert_cita_def update_cita_def delete_cita_def
  build_doctor_def build_paciente_def build_cita_def set_doctor_def set_paciente_def set_cita_def
  doctor_keys_def paciente_keys_def rekey_citas_doctor_def rekey_citas_paciente_def
  doctor_violations_def paciente_violations_def cita_violations_def
  doctor_strings_fit_def paciente_strings_fit_def in_INTEGER_def in_STRING_def

lemmas handler_defs =
  getDoctores_def getDoctorById_def createDoctor_def updateDoctor_def deleteDoctor_def
  getPacientes_def getPacienteById_def createPaciente_def updatePaciente_def deletePaciente_def
  getCitas_def getOneCita_def createCita_def updateCita_def deleteCita_def where_cita_def

section \<open>Lookups and payloads\<close>

lemma find_None_iff_keys: "find (\<lambda>d. f d = pk) xs = None \<longleftrightarrow> pk \<notin> set (map f xs)"
  by (induction xs) auto

lemma find_snoc_new:
  "pk \<notin> set (map f xs) \<Longrightarrow> f d = pk \<Longrightarrow> find (\<lambda>d. f d = pk) (xs @ [d]) = Some d"
  by (induction xs) auto

lemma find_eq_Some: "c \<in> set xs \<Longrightarrow> find (\<lambda>x. x = c) xs = Some c"
  by (induction xs) auto

lemma find_eq_None: "c \<notin> set xs \<Longrightarrow> find (\<lambda>x. x = c) xs = None"
  by (induction xs) auto

lemma value_of_Some: "value_of p = Some v \<longleftrightarrow> p = Val v"
  by (cases p) auto

lemma build_doctor_payload: "build_doctor (doctor_payload d) = Some d"
  by (simp add: build_doctor_def doctor_payload_def)


lemma build_cita_payload: "build_cita (cita_payload c) = Some c"
  by (simp add: build_cita_def cita_payload_def)

lemma build_cita_Some: "build_cita body = Some c \<longleftrightarrow> body = cita_payload c"
proof
  assume "build_cita body = Some c"
  then show "body = cita_payload c"
    by (cases body) (auto simp: build_cita_def cita_payload_def value_of_Some
        split: Option.bind_splits)
next
  assume "body = cita_payload c"
  then show "build_cita body = Some c" by (simp add: build_cita_payload)
qed

lemma where_cita_row [simp]:
  "where_cita (cita.id_profesional c) (cita.id_numeroCedula c) (cita.fecha_hora c) = c"
  by (simp add: where_cita_def)

lemma select_doctor_Some_key:
  "select_doctor pk s = Inr (Some d) \<Longrightarrow> pk \<in> set (doctor_keys s)"
  by (auto simp: select_doctor_def doctor_keys_def find_Some_iff)

lemma select_doctor_None: "pk \<notin> set (doctor_keys s) \<Longrightarrow> select_doctor pk s = Inr None"
  by (simp add: select_doctor_def doctor_keys_def find_None_iff_keys)

lemma select_paciente_Some_key:
  "select_paciente pk s = Inr (Some p) \<Longrightarrow> pk \<in> set (paciente_keys s)"
  by (auto simp: select_paciente_def paciente_keys_def find_Some_iff)

lemma select_paciente_None: "pk \<notin> set (paciente_keys s) \<Longrightarrow> select_paciente pk s = Inr None"
  by (simp add: select_paciente_def paciente_keys_def find_None_iff_keys)

lemma select_cita_Some_mem: "select_cita wh s = Inr (Some c) \<Longrightarrow> wh \<in> set (cita_table s)"
  by (auto simp: select_cita_def find_Some_iff)

lemma select_cita_None: "wh \<notin> set (cita_table s) \<Longrightarrow> select_cita wh s = Inr None"
  by (simp add: select_cita_def find_eq_None)

section \<open>Creating and finding a doctor\<close>

lemma doctor_payload_fits:
  "fits in_INTEGER (doctor_body.id_profesional (doctor_payload d)) = in_INTEGER (doctor.id_profesional d)"
  "doctor_strings_fit (doctor_payload d) =
     (in_STRING (doctor.nombre d) \<and> in_STRING (doctor.apellido d)
      \<and> in_STRING (doctor.correo d) \<and> in_STRING (doctor.telefono d))"
  "fits (\<lambda>e. e \<in> set especialidad_values) (doctor_body.especialidad (doctor_payload d))
     = (doctor.especialidad d \<in> set especialidad_values)"
  by (simp_all add: doctor_payload_def doctor_strings_fit_def)

text \<open>
  C1, as amended. A complete payload whose values fit their columns (\<open>id_profesional\<close> an
  integer of 32 bits, the four strings of at most 255 characters), whose \<open>especialidad\<close> is
  one of the two values and whose \<open>id_profesional\<close> no stored doctor has is created with 201
  and the record as data; \<open>getDoctorById\<close> with its key then answers 200 with the same
  record.
\<close>

theorem createDoctor_then_getDoctorById:
  assumes "doctor.especialidad d \<in> set especialidad_values"
    and "doctor_in_columns d"
    and "doctor.id_profesional d \<notin> set (doctor_keys s)"
  shows "createDoctor (connection k) (doctor_payload d) s =
           (\<lparr>status = 201, message = ''Doctor creado!'', data = Some (Doctor d), error = None\<rparr>,
            s\<lparr>doctor_table := doctor_table s @ [d]\<rparr>)
       \<and> getDoctorById (connection k) (doctor.id_profesional d)
            (s\<lparr>doctor_table := doctor_table s @ [d]\<rparr>) =
           (\<lparr>status = 200, message = ''Doctor encontrado'', data = Some (Doctor d), error = None\<rparr>,
            s\<lparr>doctor_table := doctor_table s @ [d]\<rparr>)"
proof -
  from assms have "insert_doctor k (doctor_payload d) s =
      Inr (d, s\<lparr>doctor_table := doctor_table s @ [d]\<rparr>)"
    by (simp add: insert_doctor_def build_doctor_payload doctor_payload_fits doctor_in_columns_def)
  moreover from assms(3) have "select_doctor (doctor.id_profesional d)
      (s\<lparr>doctor_table := doctor_table s @ [d]\<rparr>) = Inr (Some d)"
    by (simp add: select_doctor_def doctor_keys_def find_snoc_new)
  ultimately show ?thesis
    by (simp add: createDoctor_def getDoctorById_def connection_def)
qed

theorem createDoctor_then_getDoctorById_witness:
  "doctor.especialidad berta \<in> set especialidad_values
   \<and> doctor_in_columns berta
   \<and> doctor.id_profesional berta \<notin> set (doctor_keys (empty_db\<lparr>doctor_table := [ana]\<rparr>))
   \<and> createDoctor (connection restrict) (doctor_payload berta) (empty_db\<lparr>doctor_table := [ana]\<rparr>) =
       (\<lparr>status = 201, message = ''Doctor creado!'', data = Some (Doctor berta), error = None\<rparr>,
        empty_db\<lparr>doctor_table := [ana, berta]\<rparr>)
   \<and> getDoctorById (connection restrict) 2 (empty_db\<lparr>doctor_table := [ana, berta]\<rparr>) =
       (\<lparr>status = 200, message = ''Doctor encontrado'', data = Some (Doctor berta), error = None\<rparr>,
        empty_db\<lparr>doctor_table := [ana, berta]\<rparr>)"
proof -
  have h1: "doctor.especialidad berta \<in> set especialidad_values"
    by (simp add: berta_def especialidad_values_def)
  have h2: "doctor_in_columns berta"
    by (simp add: berta_def doctor_in_columns_def in_INTEGER_def in_STRING_def)
  have h3: "doctor.id_profesional berta \<notin> set (doctor_keys (empty_db\<lparr>doctor_table := [ana]\<rparr>))"
    by (simp add: doctor_keys_def berta_def ana_def)
  have id2: "doctor.id_profesional berta = 2" by (simp add: berta_def)
  show ?thesis
    using h1 h2 h3 createDoctor_then_getDoctorById [OF h1 h2 h3, of restrict]
    by (simp add: id2)
qed

text \<open>
  C1 as it is stated fails when the key is taken: after Ana is created with key 1, the
  complete payload of Luis, also with key 1 and an allowed \<open>especialidad\<close>, is answered
  500, and \<open>getDoctorById\<close> with key 1 returns Ana. It fails as well for a key that the
  \<^verbatim>\<open>INTEGER\<close> column does not take: the payload of Ana with the key \<open>2\<^sup>3\<^sup>1\<close> is answered
  500 and nothing is stored.
\<close>

theorem createDoctor_taken_key_counterexample:
  "doctor.especialidad luis \<in> set especialidad_values
   \<and> status (fst (createDoctor (connection restrict) (doctor_payload luis)
        (serve (connection restrict) [POST_doctor (doctor_payload ana)] empty_db))) = 500
   \<and> data (fst (getDoctorById (connection restrict) (doctor.id_profesional luis)
        (serve (connection restrict)
           [POST_doctor (doctor_payload ana), POST_doctor (doctor_payload luis)] empty_db)))
      = Some (Doctor ana)
   \<and> ana \<noteq> luis
   \<and> doctor.especialidad (ana\<lparr>doctor.id_profesional := 2147483648\<rparr>) \<in> set especialidad_values
   \<and> status (fst (createDoctor (connection restrict)
        (doctor_payload (ana\<lparr>doctor.id_profesional := 2147483648\<rparr>)) empty_db)) = 500
   \<and> snd (createDoctor (connection restrict)
        (doctor_payload (ana\<lparr>doctor.id_profesional := 2147483648\<rparr>)) empty_db) = empty_db"
  by (simp add: sample_defs store_defs createDoctor_def getDoctorById_def)

text \<open>
  C2. For a key that no stored doctor has, \<open>getDoctorById\<close>, \<open>updateDoctor\<close> and
  \<open>deleteDoctor\<close> answer 404 and leave the store as it was.
\<close>

theorem doctor_not_found_no_change:
  assumes "id' \<notin> set (doctor_keys s)"
  shows "getDoctorById (connection k) id' s =
           (\<lparr>status = 404, message = ''Doctor no encontrado'', data = None, error = None\<rparr>, s)
       \<and> updateDoctor (connection k) id' body s =
           (\<lparr>status = 404, message = ''Doctor no existe'', data = None, error = None\<rparr>, s)
       \<and> deleteDoctor (connection k) id' s =
           (\<lparr>status = 404, message = ''Doctor no existe'', data = None, error = None\<rparr>, s)"
proof -
  from assms have "select_doctor id' s = Inr None"
    by (simp add: select_doctor_def doctor_keys_def find_None_iff_keys)
  then show ?thesis
    by (simp add: getDoctorById_def updateDoctor_def deleteDoctor_def connection_def)
qed

theorem doctor_not_found_no_change_witness:
  "2 \<notin> set (doctor_keys (empty_db\<lparr>doctor_table := [ana]\<rparr>))
   \<and> status (fst (getDoctorById (connection restrict) 2 (empty_db\<lparr>doctor_table := [ana]\<rparr>))) = 404
   \<and> updateDoctor (connection restrict) 2 (doctor_payload luis) (empty_db\<lparr>doctor_table := [ana]\<rparr>)
       = (\<lparr>status = 404, message = ''Doctor no existe'', data = None, error = None\<rparr>,
          empty_db\<lparr>doctor_table := [ana]\<rparr>)
   \<and> snd (deleteDoctor (connection restrict) 2 (empty_db\<lparr>doctor_table := [ana]\<rparr>))
       = empty_db\<lparr>doctor_table := [ana]\<rparr>"
proof -
  have h: "2 \<notin> set (doctor_keys (empty_db\<lparr>doctor_table := [ana]\<rparr>))"
    by (simp add: doctor_keys_def ana_def)
  show ?thesis
    using h doctor_not_found_no_change [OF h, of restrict "doctor_payload luis"] by simp
qed




section \<open>Creating and finding an appointment\<close>

text \<open>
  C3. A payload that \<open>createCita\<close> answers with 201 is complete, the data of the answer is
  its record, and \<open>getOneCita\<close> with the payload's three values on the store left behind
  answers 200 with that record.
\<close>

theorem createCita_then_getOneCita:
  assumes "createCita (connection k) body s = (res, s')" and "status res = 201"
  shows "\<exists>c. body = cita_payload c
       \<and> res = \<lparr>status = 201, message = ''Cita creada!'', data = Some (Cita c), error = None\<rparr>
       \<and> getOneCita (connection k) (cita.id_profesional c) (cita.id_numeroCedula c)
            (cita.fecha_hora c) s' =
           (\<lparr>status = 200, message = ''Cita encontrada'', data = Some (Cita c), error = None\<rparr>, s')"
proof -
  from assms obtain c where ins: "insert_cita body s = Inr (c, s')"
    and res: "res = \<lparr>status = 201, message = ''Cita creada!'', data = Some (Cita c), error = None\<rparr>"
    by (auto simp: createCita_def connection_def split: sum.splits)
  from ins have body: "body = cita_payload c" and s': "s' = s\<lparr>cita_table := cita_table s @ [c]\<rparr>"
    by (auto simp: insert_cita_def build_cita_Some split: option.splits if_splits)
  have "select_cita c s' = Inr (Some c)"
    by (simp add: select_cita_def s' find_eq_Some)
  then have "getOneCita (connection k) (cita.id_profesional c) (cita.id_numeroCedula c)
            (cita.fecha_hora c) s' =
           (\<lparr>status = 200, message = ''Cita encontrada'', data = Some (Cita c), error = None\<rparr>, s')"
    by (simp add: getOneCita_def connection_def)
  with body res show ?thesis by blast
qed

theorem createCita_then_getOneCita_witness:
  "createCita (connection restrict) (cita_payload ana_pablo) staff =
     (\<lparr>status = 201, message = ''Cita creada!'', data = Some (Cita ana_pablo), error = None\<rparr>, booked)
   \<and> getOneCita (connection restrict) 1 10 1704103200 booked =
     (\<lparr>status = 200, message = ''Cita encontrada'', data = Some (Cita ana_pablo), error = None\<rparr>, booked)"
proof -
  have h1: "createCita (connection restrict) (cita_payload ana_pablo) staff =
     (\<lparr>status = 201, message = ''Cita creada!'', data = Some (Cita ana_pablo), error = None\<rparr>, booked)"
    by (simp add: sample_defs store_defs handler_defs)
  have h2: "status \<lparr>status = 201, message = ''Cita creada!'', data = Some (Cita ana_pablo),
      error = None\<rparr> = 201"
    by simp
  from createCita_then_getOneCita [OF h1 h2] obtain c where
    "data \<lparr>status = 201, message = ''Cita creada!'', data = Some (Cita ana_pablo), error = None\<rparr>
      = data \<lparr>status = 201, message = ''Cita creada!'', data = Some (Cita c), error = None\<rparr>"
    and get: "getOneCita (connection restrict) (cita.id_profesional c) (cita.id_numeroCedula c)
        (cita.fecha_hora c) booked =
       (\<lparr>status = 200, message = ''Cita encontrada'', data = Some (Cita c), error = None\<rparr>, booked)"
    by metis
  then have "c = ana_pablo" by simp
  with get have "getOneCita (connection restrict) 1 10 1704103200 booked =
     (\<lparr>status = 200, message = ''Cita encontrada'', data = Some (Cita ana_pablo), error = None\<rparr>, booked)"
    by (simp add: ana_pablo_def)
  with h1 show ?thesis by simp
qed

section \<open>What the writes of the store preserve\<close>

text \<open>The keys of \<^verbatim>\<open>doctor\<close> and \<^verbatim>\<open>paciente\<close> after an update: the old key becomes the
  new one, the others stay.\<close>

lemma doctor_rows_image:
  "doctor.id_profesional `
     set (map (\<lambda>d. if doctor.id_profesional d = pk then set_doctor body d else d) ds)
   = (\<lambda>i. if i = pk then assign (doctor_body.id_profesional body) pk else i) `
       doctor.id_profesional ` set ds"
  by (induction ds) (auto simp: set_doctor_def)

lemma doctor_keys_rows:
  "set (doctor_keys (s\<lparr>doctor_table :=
      map (\<lambda>d. if doctor.id_profesional d = pk then set_doctor body d else d) (doctor_table s)\<rparr>))
   = (\<lambda>i. if i = pk then assign (doctor_body.id_profesional body) pk else i) ` set (doctor_keys s)"
proof -
  have "doctor_table (s\<lparr>doctor_table :=
      map (\<lambda>d. if doctor.id_profesional d = pk then set_doctor body d else d) (doctor_table s)\<rparr>)
    = map (\<lambda>d. if doctor.id_profesional d = pk then set_doctor body d else d) (doctor_table s)"
    by simp
  then show ?thesis
    unfolding doctor_keys_def set_map by (simp only: doctor_rows_image)
qed

lemma paciente_rows_image:
  "paciente.id_numeroCedula `
     set (map (\<lambda>p. if paciente.id_numeroCedula p = pk then set_paciente body p else p) ps)
   = (\<lambda>i. if i = pk then assign (paciente_body.id_numeroCedula body) pk else i) `
       paciente.id_numeroCedula ` set ps"
  by (induction ps) (auto simp: set_paciente_def)

lemma paciente_keys_rows:
  "set (paciente_keys (s\<lparr>paciente_table :=
      map (\<lambda>p. if paciente.id_numeroCedula p = pk then set_paciente body p else p) (paciente_table s)\<rparr>))
   = (\<lambda>i. if i = pk then assign (paciente_body.id_numeroCedula body) pk else i) ` set (paciente_keys s)"
proof -
  have "paciente_table (s\<lparr>paciente_table :=
      map (\<lambda>p. if paciente.id_numeroCedula p = pk then set_paciente body p else p) (paciente_table s)\<rparr>)
    = map (\<lambda>p. if paciente.id_numeroCedula p = pk then set_paciente body p else p) (paciente_table s)"
    by simp
  then show ?thesis
    unfolding paciente_keys_def set_map by (simp only: paciente_rows_image)
qed

text \<open>The stores an update can leave: the one it got, the one with the rows rewritten,
  or the one with the rows rewritten and the referencing appointments with them.\<close>

lemma update_doctor_Inr:
  assumes "update_doctor k body pk s = Inr s'"
  obtains (unchanged) "s' = s"
  | (rows) "pk \<in> set (doctor_keys s)"
      "assign (doctor_body.id_profesional body) pk = pk
       \<or> (assign (doctor_body.id_profesional body) pk \<notin> set (doctor_keys s)
          \<and> (\<forall>c \<in> set (cita_table s). cita.id_profesional c \<noteq> pk))"
      "s' = s\<lparr>doctor_table :=
         map (\<lambda>d. if doctor.id_profesional d = pk then set_doctor body d else d) (doctor_table s)\<rparr>"
  | (cascade) "pk \<in> set (doctor_keys s)"
      "assign (doctor_body.id_profesional body) pk \<notin> set (doctor_keys s)"
      "\<forall>c \<in> set (cita_table s). cita.id_profesional c = pk \<longrightarrow>
         c\<lparr>cita.id_profesional := assign (doctor_body.id_profesional body) pk\<rparr> \<notin> set (cita_table s)"
      "s' = s\<lparr>doctor_table :=
         map (\<lambda>d. if doctor.id_profesional d = pk then set_doctor body d else d) (doctor_table s),
         cita_table := rekey_citas_doctor pk (assign (doctor_body.id_profesional body) pk) (cita_table s)\<rparr>"
  using assms unfolding update_doctor_def Let_def
  by (auto simp: filter_empty_conv split: if_splits referential_action.splits)

lemma update_paciente_Inr:
  assumes "update_paciente k body pk s = Inr s'"
  obtains (unchanged) "s' = s"
  | (rows) "pk \<in> set (paciente_keys s)"
      "assign (paciente_body.id_numeroCedula body) pk = pk
       \<or> (assign (paciente_body.id_numeroCedula body) pk \<notin> set (paciente_keys s)
          \<and> (\<forall>c \<in> set (cita_table s). cita.id_numeroCedula c \<noteq> pk))"
      "s' = s\<lparr>paciente_table :=
         map (\<lambda>p. if paciente.id_numeroCedula p = pk then set_paciente body p else p) (paciente_table s)\<rparr>"
  | (cascade) "pk \<in> set (paciente_keys s)"
      "assign (paciente_body.id_numeroCedula body) pk \<notin> set (paciente_keys s)"
      "\<forall>c \<in> set (cita_table s). cita.id_numeroCedula c = pk \<longrightarrow>
         c\<lparr>cita.id_numeroCedula := assign (paciente_body.id_numeroCedula body) pk\<rparr> \<notin> set (cita_table s)"
      "s' = s\<lparr>paciente_table :=
         map (\<lambda>p. if paciente.id_numeroCedula p = pk then set_paciente body p else p) (paciente_table s),
         cita_table := rekey_citas_paciente pk (assign (paciente_body.id_numeroCedula body) pk) (cita_table s)\<rparr>"
  using assms unfolding update_paciente_def Let_def
  by (auto simp: filter_empty_conv split: if_splits referential_action.splits)

subsection \<open>References\<close>

lemma update_doctor_references:
  assumes "update_doctor k body pk s = Inr s'" and "references_ok s"
  shows "references_ok s'"
  using assms(1)
proof (cases rule: update_doctor_Inr)
  case unchanged
  with assms(2) show ?thesis by simp
next
  case rows
  have pac: "paciente_keys s' = paciente_keys s" "cita_table s' = cita_table s"
    using rows(3) by (simp_all add: paciente_keys_def)
  show ?thesis
    unfolding references_ok_def pac
  proof (intro ballI conjI)
    fix c assume c: "c \<in> set (cita_table s)"
    with assms(2) have d: "cita.id_profesional c \<in> set (doctor_keys s)"
      and p: "cita.id_numeroCedula c \<in> set (paciente_keys s)"
      by (auto simp: references_ok_def)
    from p show "cita.id_numeroCedula c \<in> set (paciente_keys s)" .
    from rows(2) d c show "cita.id_profesional c \<in> set (doctor_keys s')"
      unfolding rows(3) doctor_keys_rows by (auto simp: image_iff)
  qed
next
  case cascade
  have pac: "paciente_keys s' = paciente_keys s"
    using cascade(4) by (simp add: paciente_keys_def)
  have dk: "set (doctor_keys s') =
      (\<lambda>i. if i = pk then assign (doctor_body.id_profesional body) pk else i) ` set (doctor_keys s)"
    using doctor_keys_rows[where s=s and pk=pk and body=body] cascade(4) by (simp add: doctor_keys_def)
  have ct: "cita_table s' = rekey_citas_doctor pk (assign (doctor_body.id_profesional body) pk) (cita_table s)"
    using cascade(4) by simp
  show ?thesis
    unfolding references_ok_def pac dk ct
    using assms(2) cascade(1)
    by (auto simp: references_ok_def rekey_citas_doctor_def image_iff)
qed

lemma update_paciente_references:
  assumes "update_paciente k body pk s = Inr s'" and "references_ok s"
  shows "references_ok s'"
  using assms(1)
proof (cases rule: update_paciente_Inr)
  case unchanged
  with assms(2) show ?thesis by simp
next
  case rows
  have doc: "doctor_keys s' = doctor_keys s" "cita_table s' = cita_table s"
    using rows(3) by (simp_all add: doctor_keys_def)
  show ?thesis
    unfolding references_ok_def doc
  proof (intro ballI conjI)
    fix c assume c: "c \<in> set (cita_table s)"
    with assms(2) have d: "cita.id_profesional c \<in> set (doctor_keys s)"
      and p: "cita.id_numeroCedula c \<in> set (paciente_keys s)"
      by (auto simp: references_ok_def)
    from d show "cita.id_profesional c \<in> set (doctor_keys s)" .
    from rows(2) p c show "cita.id_numeroCedula c \<in> set (paciente_keys s')"
      unfolding rows(3) paciente_keys_rows by (auto simp: image_iff)
  qed
next
  case cascade
  have doc: "doctor_keys s' = doctor_keys s"
    using cascade(4) by (simp add: doctor_keys_def)
  have pk: "set (paciente_keys s') =
      (\<lambda>i. if i = pk then assign (paciente_body.id_numeroCedula body) pk else i) ` set (paciente_keys s)"
    using paciente_keys_rows[where s=s and pk=pk and body=body] cascade(4)
    by (simp add: paciente_keys_def)
  have ct: "cita_table s' =
      rekey_citas_paciente pk (assign (paciente_body.id_numeroCedula body) pk) (cita_table s)"
    using cascade(4) by simp
  show ?thesis
    unfolding references_ok_def doc pk ct
    using assms(2) cascade(1)
    by (auto simp: references_ok_def rekey_citas_paciente_def image_iff)
qed

lemma key_survives_filter:
  "i \<in> f ` set xs \<Longrightarrow> i \<noteq> pk \<Longrightarrow> i \<in> f ` {x \<in> set xs. f x \<noteq> pk}"
  by auto

lemma delete_doctor_references:
  assumes "delete_doctor k pk s = Inr s'" and "references_ok s"
  shows "references_ok s'"
  using assms
  unfolding delete_doctor_def Let_def references_ok_def
  by (auto simp: doctor_keys_def paciente_keys_def filter_empty_conv
      split: if_splits referential_action.splits intro!: key_survives_filter)

lemma delete_paciente_references:
  assumes "delete_paciente k pk s = Inr s'" and "references_ok s"
  shows "references_ok s'"
  using assms
  unfolding delete_paciente_def Let_def references_ok_def
  by (auto simp: doctor_keys_def paciente_keys_def filter_empty_conv
      split: if_splits referential_action.splits intro!: key_survives_filter)

lemma insert_doctor_references:
  assumes "insert_doctor k body s = Inr (d, s')" and "references_ok s"
  shows "references_ok s'"
  using assms
  unfolding insert_doctor_def references_ok_def
  by (auto simp: doctor_keys_def paciente_keys_def split: if_splits option.splits)

lemma insert_paciente_references:
  assumes "insert_paciente body s = Inr (p, s')" and "references_ok s"
  shows "references_ok s'"
  using assms
  unfolding insert_paciente_def references_ok_def
  by (auto simp: doctor_keys_def paciente_keys_def split: if_splits option.splits)

lemma insert_cita_references:
  assumes "insert_cita body s = Inr (c, s')" and "references_ok s"
  shows "references_ok s'"
  using assms
  unfolding insert_cita_def references_ok_def
  by (auto simp: doctor_keys_def paciente_keys_def split: if_splits option.splits)

lemma update_cita_references:
  assumes "update_cita body wh s = Inr s'" and "references_ok s"
  shows "references_ok s'"
  using assms
  unfolding update_cita_def Let_def references_ok_def
  by (auto simp: doctor_keys_def paciente_keys_def split: if_splits)

lemma delete_cita_references:
  assumes "delete_cita wh s = Inr s'" and "references_ok s"
  shows "references_ok s'"
  using assms
  unfolding delete_cita_def references_ok_def
  by (auto simp: doctor_keys_def paciente_keys_def)

subsection \<open>Uniqueness\<close>

lemma distinct_replace:
  assumes "distinct xs" and "new \<notin> set xs"
  shows "distinct (map (\<lambda>c. if c = wh then new else c) xs)"
proof -
  have "inj_on (\<lambda>c. if c = wh then new else c) (set xs)"
    using assms(2) by (auto simp: inj_on_def)
  with assms(1) show ?thesis by (simp add: distinct_map)
qed

lemma distinct_rekey_doctor:
  assumes "distinct cs"
    and "\<forall>c \<in> set cs. cita.id_profesional c = pk \<longrightarrow> c\<lparr>cita.id_profesional := new\<rparr> \<notin> set cs"
  shows "distinct (rekey_citas_doctor pk new cs)"
proof -
  have "inj_on (\<lambda>c. if cita.id_profesional c = pk then c\<lparr>cita.id_profesional := new\<rparr> else c) (set cs)"
  proof (rule inj_onI)
    fix x y
    assume x: "x \<in> set cs" and y: "y \<in> set cs"
      and eq: "(if cita.id_profesional x = pk then x\<lparr>cita.id_profesional := new\<rparr> else x)
             = (if cita.id_profesional y = pk then y\<lparr>cita.id_profesional := new\<rparr> else y)"
    show "x = y"
    proof (cases "cita.id_profesional x = pk")
      case True
      note xk = this
      show ?thesis
      proof (cases "cita.id_profesional y = pk")
        case True
        with xk eq have "x\<lparr>cita.id_profesional := new\<rparr> = y\<lparr>cita.id_profesional := new\<rparr>" by simp
        then have "cita.fecha_hora x = cita.fecha_hora y" "cita.id_numeroCedula x = cita.id_numeroCedula y"
          by (metis cita.select_convs(1) cita.surjective cita.update_convs(2),
              metis cita.select_convs(3) cita.surjective cita.update_convs(2))
        with xk True show ?thesis by simp
      next
        case False
        with xk eq have "x\<lparr>cita.id_profesional := new\<rparr> = y" by simp
        with assms(2) x xk y show ?thesis by auto
      qed
    next
      case False
      note xk = this
      show ?thesis
      proof (cases "cita.id_profesional y = pk")
        case True
        with xk eq have "x = y\<lparr>cita.id_profesional := new\<rparr>" by simp
        with assms(2) y True x show ?thesis by auto
      next
        case False
        with xk eq show ?thesis by simp
      qed
    qed
  qed
  with assms(1) show ?thesis by (simp add: rekey_citas_doctor_def distinct_map)
qed

lemma distinct_rekey_paciente:
  assumes "distinct cs"
    and "\<forall>c \<in> set cs. cita.id_numeroCedula c = pk \<longrightarrow> c\<lparr>cita.id_numeroCedula := new\<rparr> \<notin> set cs"
  shows "distinct (rekey_citas_paciente pk new cs)"
proof -
  have "inj_on (\<lambda>c. if cita.id_numeroCedula c = pk then c\<lparr>cita.id_numeroCedula := new\<rparr> else c) (set cs)"
  proof (rule inj_onI)
    fix x y
    assume x: "x \<in> set cs" and y: "y \<in> set cs"
      and eq: "(if cita.id_numeroCedula x = pk then x\<lparr>cita.id_numeroCedula := new\<rparr> else x)
             = (if cita.id_numeroCedula y = pk then y\<lparr>cita.id_numeroCedula := new\<rparr> else y)"
    show "x = y"
    proof (cases "cita.id_numeroCedula x = pk")
      case True
      note xk = this
      show ?thesis
      proof (cases "cita.id_numeroCedula y = pk")
        case True
        with xk eq have "x\<lparr>cita.id_numeroCedula := new\<rparr> = y\<lparr>cita.id_numeroCedula := new\<rparr>" by simp
        then have "cita.fecha_hora x = cita.fecha_hora y" "cita.id_profesional x = cita.id_profesional y"
          by (metis cita.select_convs(1) cita.surjective cita.update_convs(3),
              metis cita.select_convs(2) cita.surjective cita.update_convs(3))
        with xk True show ?thesis by simp
      next
        case False
        with xk eq have "x\<lparr>cita.id_numeroCedula := new\<rparr> = y" by simp
        with assms(2) x xk y show ?thesis by auto
      qed
    next
      case False
      note xk = this
      show ?thesis
      proof (cases "cita.id_numeroCedula y = pk")
        case True
        with xk eq have "x = y\<lparr>cita.id_numeroCedula := new\<rparr>" by simp
        with assms(2) y True x show ?thesis by auto
      next
        case False
        with xk eq show ?thesis by simp
      qed
    qed
  qed
  with assms(1) show ?thesis by (simp add: rekey_citas_paciente_def distinct_map)
qed

lemma update_doctor_unique:
  assumes "update_doctor k body pk s = Inr s'" and "cita_unique s"
  shows "cita_unique s'"
  using assms(1)
proof (cases rule: update_doctor_Inr)
  case unchanged
  with assms(2) show ?thesis by simp
next
  case rows
  with assms(2) show ?thesis by (simp add: cita_unique_def)
next
  case cascade
  from assms(2) cascade(3) show ?thesis
    unfolding cascade(4) cita_unique_def by (simp add: distinct_rekey_doctor)
qed

lemma update_paciente_unique:
  assumes "update_paciente k body pk s = Inr s'" and "cita_unique s"
  shows "cita_unique s'"
  using assms(1)
proof (cases rule: update_paciente_Inr)
  case unchanged
  with assms(2) show ?thesis by simp
next
  case rows
  with assms(2) show ?thesis by (simp add: cita_unique_def)
next
  case cascade
  from assms(2) cascade(3) show ?thesis
    unfolding cascade(4) cita_unique_def by (simp add: distinct_rekey_paciente)
qed

lemma delete_doctor_unique:
  assumes "delete_doctor k pk s = Inr s'" and "cita_unique s"
  shows "cita_unique s'"
  using assms unfolding delete_doctor_def Let_def cita_unique_def
  by (auto split: if_splits referential_action.splits)

lemma delete_paciente_unique:
  assumes "delete_paciente k pk s = Inr s'" and "cita_unique s"
  shows "cita_unique s'"
  using assms unfolding delete_paciente_def Let_def cita_unique_def
  by (auto split: if_splits referential_action.splits)

lemma insert_doctor_unique:
  assumes "insert_doctor k body s = Inr (d, s')" and "cita_unique s"
  shows "cita_unique s'"
  using assms unfolding insert_doctor_def cita_unique_def
  by (auto split: if_splits option.splits)

lemma insert_paciente_unique:
  assumes "insert_paciente body s = Inr (p, s')" and "cita_unique s"
  shows "cita_unique s'"
  using assms unfolding insert_paciente_def cita_unique_def
  by (auto split: if_splits option.splits)

lemma insert_cita_unique:
  assumes "insert_cita body s = Inr (c, s')" and "cita_unique s"
  shows "cita_unique s'"
  using assms unfolding insert_cita_def cita_unique_def
  by (auto split: if_splits option.splits)

lemma update_cita_unique:
  assumes "update_cita body wh s = Inr s'" and "cita_unique s"
  shows "cita_unique s'"
  using assms unfolding update_cita_def Let_def cita_unique_def
  by (auto split: if_splits simp: distinct_replace)

lemma delete_cita_unique:
  assumes "delete_cita wh s = Inr s'" and "cita_unique s"
  shows "cita_unique s'"
  using assms unfolding delete_cita_def cita_unique_def by auto

subsection \<open>Handlers and request sequences\<close>

text \<open>Every handler leaves the store a write of its connection left, or the one it got.\<close>

lemma handle_store:
  "snd (handle M r s) = s
   \<or> (\<exists>body d. Doctor_create M body s = Inr (d, snd (handle M r s)))
   \<or> (\<exists>body pk. Doctor_update M body pk s = Inr (snd (handle M r s)))
   \<or> (\<exists>pk. Doctor_destroy M pk s = Inr (snd (handle M r s)))
   \<or> (\<exists>body p. Paciente_create M body s = Inr (p, snd (handle M r s)))
   \<or> (\<exists>body pk. Paciente_update M body pk s = Inr (snd (handle M r s)))
   \<or> (\<exists>pk. Paciente_destroy M pk s = Inr (snd (handle M r s)))
   \<or> (\<exists>body c. Cita_create M body s = Inr (c, snd (handle M r s)))
   \<or> (\<exists>body wh. Cita_update M body wh s = Inr (snd (handle M r s)))
   \<or> (\<exists>wh. Cita_destroy M wh s = Inr (snd (handle M r s)))"
proof (cases r)
  case GET_doctores
  then show ?thesis by (simp add: getDoctores_def split: sum.splits)
next
  case (GET_doctor x2)
  then show ?thesis by (simp add: getDoctorById_def split: sum.splits option.splits)
next
  case (POST_doctor x3)
  then show ?thesis by (auto simp: createDoctor_def split: sum.splits)
next
  case (PUT_doctor x41 x42)
  then show ?thesis by (auto simp: updateDoctor_def split: sum.splits option.splits)
next
  case (DELETE_doctor x5)
  then show ?thesis by (auto simp: deleteDoctor_def split: sum.splits option.splits)
next
  case GET_pacientes
  then show ?thesis by (simp add: getPacientes_def split: sum.splits)
next
  case (GET_paciente x7)
  then show ?thesis by (simp add: getPacienteById_def split: sum.splits option.splits)
next
  case (POST_paciente x8)
  then show ?thesis by (auto simp: createPaciente_def split: sum.splits)
next
  case (PUT_paciente x91 x92)
  then show ?thesis by (auto simp: updatePaciente_def split: sum.splits option.splits)
next
  case (DELETE_paciente x10)
  then show ?thesis by (auto simp: deletePaciente_def split: sum.splits option.splits)
next
  case GET_citas
  then show ?thesis by (simp add: getCitas_def split: sum.splits)
next
  case (GET_cita x121 x122 x123)
  then show ?thesis by (simp add: getOneCita_def split: sum.splits option.splits)
next
  case (POST_cita x13)
  then show ?thesis by (auto simp: createCita_def split: sum.splits)
next
  case (PUT_cita x141 x142 x143 x144)
  then show ?thesis by (auto simp: updateCita_def split: sum.splits option.splits)
next
  case (DELETE_cita x151 x152 x153)
  then show ?thesis by (auto simp: deleteCita_def split: sum.splits option.splits)
qed

lemma handle_references:
  assumes "references_ok s"
  shows "references_ok (snd (handle (connection k) r s))"
  using handle_store [of "connection k" r s] assms
  by (auto simp: connection_def
      dest: insert_doctor_references update_doctor_references delete_doctor_references
        insert_paciente_references update_paciente_references delete_paciente_references
        insert_cita_references update_cita_references delete_cita_references)

lemma handle_unique:
  assumes "cita_unique s"
  shows "cita_unique (snd (handle (connection k) r s))"
  using handle_store [of "connection k" r s] assms
  by (auto simp: connection_def
      dest: insert_doctor_unique update_doctor_unique delete_doctor_unique
        insert_paciente_unique update_paciente_unique delete_paciente_unique
        insert_cita_unique update_cita_unique delete_cita_unique)

lemma serve_references:
  "references_ok s \<Longrightarrow> references_ok (serve (connection k) rs s)"
  by (induction rs arbitrary: s) (simp_all add: handle_references)

lemma serve_unique:
  "cita_unique s \<Longrightarrow> cita_unique (serve (connection k) rs s)"
  by (induction rs arbitrary: s) (simp_all add: handle_unique)

lemma empty_db_references: "references_ok empty_db"
  by (simp add: references_ok_def empty_db_def)

lemma empty_db_unique: "cita_unique empty_db"
  by (simp add: cita_unique_def empty_db_def)

section \<open>The invariants of the appointments\<close>

text \<open>
  C5. In the store that any sequence of requests leaves, starting from the empty tables,
  every appointment references a stored doctor and a stored patient; and \<open>createCita\<close> with
  a body whose doctor or patient is not stored is answered 500 and leaves the store as it
  was. This holds for either referential action of the foreign keys.
\<close>

theorem cita_references_invariant:
  "references_ok (serve (connection k) rs empty_db)
 \<and> ((cita_body.id_profesional body = Val d \<and> d \<notin> set (doctor_keys s))
      \<or> (cita_body.id_numeroCedula body = Val p \<and> p \<notin> set (paciente_keys s)) \<longrightarrow>
    (\<exists>e. createCita (connection k) body s =
        (\<lparr>status = 500, message = ''No se pudo crear la cita'', data = None, error = Some e\<rparr>, s)))"
proof (intro conjI impI)
  show "references_ok (serve (connection k) rs empty_db)"
    by (rule serve_references [OF empty_db_references])
next
  assume bad: "(cita_body.id_profesional body = Val d \<and> d \<notin> set (doctor_keys s))
      \<or> (cita_body.id_numeroCedula body = Val p \<and> p \<notin> set (paciente_keys s))"
  have "\<exists>err. insert_cita body s = Inl err"
  proof (cases "build_cita body")
    case None
    then show ?thesis by (simp add: insert_cita_def)
  next
    case (Some c)
    then have "body = cita_payload c" by (simp add: build_cita_Some)
    with bad have "cita.id_profesional c \<notin> set (doctor_keys s)
        \<or> cita.id_numeroCedula c \<notin> set (paciente_keys s)"
      by (auto simp: cita_payload_def)
    with Some show ?thesis by (auto simp: insert_cita_def)
  qed
  then show "\<exists>e. createCita (connection k) body s =
        (\<lparr>status = 500, message = ''No se pudo crear la cita'', data = None, error = Some e\<rparr>, s)"
    by (auto simp: createCita_def connection_def)
qed

theorem cita_references_invariant_witness:
  "references_ok (serve (connection restrict) (first_day @ [DELETE_doctor 1]) empty_db)
   \<and> serve (connection restrict) (first_day @ [DELETE_doctor 1]) empty_db = booked
   \<and> references_ok (serve (connection cascade) (first_day @ [DELETE_doctor 1]) empty_db)
   \<and> serve (connection cascade) (first_day @ [DELETE_doctor 1]) empty_db =
       staff\<lparr>doctor_table := [berta]\<rparr>
   \<and> cita_body.id_profesional (cita_payload nobody) = Val 7
   \<and> 7 \<notin> set (doctor_keys booked)
   \<and> createCita (connection restrict) (cita_payload nobody) booked =
       (\<lparr>status = 500, message = ''No se pudo crear la cita'', data = None,
         error = Some (Error.message child_row_fails)\<rparr>, booked)"
proof -
  have h1: "cita_body.id_profesional (cita_payload nobody) = Val 7"
    by (simp add: sample_defs)
  have h2: "7 \<notin> set (doctor_keys booked)"
    by (simp add: sample_defs doctor_keys_def)
  have r: "serve (connection restrict) (first_day @ [DELETE_doctor 1]) empty_db = booked"
    by (simp add: sample_defs store_defs handler_defs)
  have c: "serve (connection cascade) (first_day @ [DELETE_doctor 1]) empty_db =
       staff\<lparr>doctor_table := [berta]\<rparr>"
    by (simp add: sample_defs store_defs handler_defs)
  have e: "createCita (connection restrict) (cita_payload nobody) booked =
       (\<lparr>status = 500, message = ''No se pudo crear la cita'', data = None,
         error = Some (Error.message child_row_fails)\<rparr>, booked)"
    by (simp add: sample_defs store_defs handler_defs)
  show ?thesis
    using h1 h2 r c e
      cita_references_invariant [of restrict "first_day @ [DELETE_doctor 1]" "cita_payload nobody" 7 booked]
      cita_references_invariant [of cascade "first_day @ [DELETE_doctor 1]"]
    by simp
qed

text \<open>
  C6. In the store that any sequence of requests leaves, no two appointments have the same
  three values; \<open>createCita\<close> with a triple that is stored is answered 500 (duplicate
  entry) and changes nothing; and a triple that is not stored, with a stored doctor and
  patient, is accepted whatever it shares with the stored ones: the same time and
  doctor, or the same time and patient.
\<close>

theorem cita_key_unique_invariant:
  "cita_unique (serve (connection k) rs empty_db)
 \<and> (c \<in> set (cita_table s) \<longrightarrow>
      createCita (connection k) (cita_payload c) s =
        (\<lparr>status = 500, message = ''No se pudo crear la cita'', data = None,
          error = Some (Error.message UniqueConstraintError)\<rparr>, s))
 \<and> (c \<notin> set (cita_table s) \<and> cita.id_profesional c \<in> set (doctor_keys s)
      \<and> cita.id_numeroCedula c \<in> set (paciente_keys s) \<longrightarrow>
      createCita (connection k) (cita_payload c) s =
        (\<lparr>status = 201, message = ''Cita creada!'', data = Some (Cita c), error = None\<rparr>,
         s\<lparr>cita_table := cita_table s @ [c]\<rparr>))"
proof (intro conjI impI)
  show "cita_unique (serve (connection k) rs empty_db)"
    by (rule serve_unique [OF empty_db_unique])
next
  assume "c \<in> set (cita_table s)"
  then show "createCita (connection k) (cita_payload c) s =
        (\<lparr>status = 500, message = ''No se pudo crear la cita'', data = None,
          error = Some (Error.message UniqueConstraintError)\<rparr>, s)"
    by (simp add: createCita_def connection_def insert_cita_def build_cita_payload)
next
  assume "c \<notin> set (cita_table s) \<and> cita.id_profesional c \<in> set (doctor_keys s)
      \<and> cita.id_numeroCedula c \<in> set (paciente_keys s)"
  then show "createCita (connection k) (cita_payload c) s =
        (\<lparr>status = 201, message = ''Cita creada!'', data = Some (Cita c), error = None\<rparr>,
         s\<lparr>cita_table := cita_table s @ [c]\<rparr>)"
    by (simp add: createCita_def connection_def insert_cita_def build_cita_payload)
qed

theorem cita_key_unique_invariant_witness:
  "cita_unique (serve (connection restrict)
      (first_day @ [POST_cita (cita_payload ana_pablo), POST_cita (cita_payload ana_paula),
         POST_cita (cita_payload berta_pablo)]) empty_db)
   \<and> cita_table (serve (connection restrict)
      (first_day @ [POST_cita (cita_payload ana_pablo), POST_cita (cita_payload ana_paula),
         POST_cita (cita_payload berta_pablo)]) empty_db) = [ana_pablo, ana_paula, berta_pablo]
   \<and> ana_pablo \<in> set (cita_table booked)
   \<and> createCita (connection restrict) (cita_payload ana_pablo) booked =
        (\<lparr>status = 500, message = ''No se pudo crear la cita'', data = None,
          error = Some ''Validation error''\<rparr>, booked)
   \<and> ana_paula \<notin> set (cita_table booked)
   \<and> cita.id_profesional ana_paula \<in> set (doctor_keys booked)
   \<and> cita.id_numeroCedula ana_paula \<in> set (paciente_keys booked)
   \<and> cita.fecha_hora ana_paula = cita.fecha_hora ana_pablo
   \<and> cita.id_profesional ana_paula = cita.id_profesional ana_pablo
   \<and> createCita (connection restrict) (cita_payload ana_paula) booked =
        (\<lparr>status = 201, message = ''Cita creada!'', data = Some (Cita ana_paula), error = None\<rparr>,
         booked\<lparr>cita_table := [ana_pablo, ana_paula]\<rparr>)"
proof -
  have t: "cita_table (serve (connection restrict)
      (first_day @ [POST_cita (cita_payload ana_pablo), POST_cita (cita_payload ana_paula),
         POST_cita (cita_payload berta_pablo)]) empty_db) = [ana_pablo, ana_paula, berta_pablo]"
    by (simp add: sample_defs store_defs handler_defs)
  have h1: "ana_pablo \<in> set (cita_table booked)"
    by (simp add: sample_defs)
  have h2: "ana_paula \<notin> set (cita_table booked)"
    "cita.id_profesional ana_paula \<in> set (doctor_keys booked)"
    "cita.id_numeroCedula ana_paula \<in> set (paciente_keys booked)"
    by (simp_all add: sample_defs doctor_keys_def paciente_keys_def)
  have same: "cita.fecha_hora ana_paula = cita.fecha_hora ana_pablo"
    "cita.id_profesional ana_paula = cita.id_profesional ana_pablo"
    by (simp_all add: sample_defs)
  have tbl: "cita_table booked = [ana_pablo]"
    by (simp add: booked_def)
  have msg: "Error.message UniqueConstraintError = ''Validation error''"
    by (simp add: UniqueConstraintError_def sequelize_error_def)
  show ?thesis
    using t h1 h2 same
      cita_key_unique_invariant [of restrict "first_day @ [POST_cita (cita_payload ana_pablo),
         POST_cita (cita_payload ana_paula), POST_cita (cita_payload berta_pablo)]" ana_pablo booked]
      cita_key_unique_invariant [of restrict "[]" ana_paula booked]
    by (simp add: tbl msg)
qed

section \<open>Deleting twice\<close>

lemma delete_doctor_gone:
  assumes "delete_doctor k pk s = Inr s'" and "pk \<in> set (doctor_keys s)"
  shows "pk \<notin> set (doctor_keys s')"
  using assms unfolding delete_doctor_def Let_def
  by (auto simp: doctor_keys_def split: if_splits referential_action.splits)

lemma delete_cita_gone: "delete_cita wh s = Inr s' \<Longrightarrow> wh \<notin> set (cita_table s')"
  by (auto simp: delete_cita_def)

text \<open>
  C7. After \<open>deleteCita\<close> (or \<open>deleteDoctor\<close>) answered 200 for a key, the same delete on
  the store left behind answers 404, not 500, and leaves that store as it is.
\<close>

theorem delete_twice_not_found:
  "(status (fst (deleteCita (connection k) profesional paciente fecha s)) = 200 \<longrightarrow>
      deleteCita (connection k) profesional paciente fecha
        (snd (deleteCita (connection k) profesional paciente fecha s)) =
      (\<lparr>status = 404, message = ''Cita no existe'', data = None, error = None\<rparr>,
       snd (deleteCita (connection k) profesional paciente fecha s)))
 \<and> (status (fst (deleteDoctor (connection k) id' s)) = 200 \<longrightarrow>
      deleteDoctor (connection k) id' (snd (deleteDoctor (connection k) id' s)) =
      (\<lparr>status = 404, message = ''Doctor no existe'', data = None, error = None\<rparr>,
       snd (deleteDoctor (connection k) id' s)))"
proof (intro conjI impI)
  let ?wh = "where_cita profesional paciente fecha"
  assume ok: "status (fst (deleteCita (connection k) profesional paciente fecha s)) = 200"
  then obtain s' where del: "delete_cita ?wh s = Inr s'"
    and s': "snd (deleteCita (connection k) profesional paciente fecha s) = s'"
    by (auto simp: deleteCita_def connection_def split: sum.splits option.splits)
  from del have "select_cita ?wh s' = Inr None"
    by (intro select_cita_None delete_cita_gone)
  then show "deleteCita (connection k) profesional paciente fecha
        (snd (deleteCita (connection k) profesional paciente fecha s)) =
      (\<lparr>status = 404, message = ''Cita no existe'', data = None, error = None\<rparr>,
       snd (deleteCita (connection k) profesional paciente fecha s))"
    unfolding s' by (simp add: deleteCita_def connection_def)
next
  assume ok: "status (fst (deleteDoctor (connection k) id' s)) = 200"
  then obtain s' d where found: "select_doctor id' s = Inr (Some d)"
    and del: "delete_doctor k id' s = Inr s'"
    and s': "snd (deleteDoctor (connection k) id' s) = s'"
    by (auto simp: deleteDoctor_def connection_def split: sum.splits option.splits)
  from del found have "select_doctor id' s' = Inr None"
    by (intro select_doctor_None delete_doctor_gone select_doctor_Some_key)
  then show "deleteDoctor (connection k) id' (snd (deleteDoctor (connection k) id' s)) =
      (\<lparr>status = 404, message = ''Doctor no existe'', data = None, error = None\<rparr>,
       snd (deleteDoctor (connection k) id' s))"
    unfolding s' by (simp add: deleteDoctor_def connection_def)
qed

theorem delete_twice_not_found_witness:
  "deleteCita (connection restrict) 1 10 1704103200 booked =
     (\<lparr>status = 200, message = ''Cita eliminada'', data = None, error = None\<rparr>, staff)
   \<and> deleteCita (connection restrict) 1 10 1704103200 staff =
     (\<lparr>status = 404, message = ''Cita no existe'', data = None, error = None\<rparr>, staff)
   \<and> deleteDoctor (connection restrict) 2 booked =
     (\<lparr>status = 200, message = ''Doctor eliminado'', data = None, error = None\<rparr>,
      booked\<lparr>doctor_table := [ana]\<rparr>)
   \<and> deleteDoctor (connection restrict) 2 (booked\<lparr>doctor_table := [ana]\<rparr>) =
     (\<lparr>status = 404, message = ''Doctor no existe'', data = None, error = None\<rparr>,
      booked\<lparr>doctor_table := [ana]\<rparr>)"
proof -
  have c: "deleteCita (connection restrict) 1 10 1704103200 booked =
     (\<lparr>status = 200, message = ''Cita eliminada'', data = None, error = None\<rparr>, staff)"
    by (simp add: sample_defs store_defs handler_defs)
  have d: "deleteDoctor (connection restrict) 2 booked =
     (\<lparr>status = 200, message = ''Doctor eliminado'', data = None, error = None\<rparr>,
      booked\<lparr>doctor_table := [ana]\<rparr>)"
    by (simp add: sample_defs store_defs handler_defs)
  show ?thesis
    using c d delete_twice_not_found [of restrict 1 10 1704103200 booked 2]
    by simp
qed

section \<open>Errors of the storage layer\<close>

text \<open>
  C8. Whatever the connection is, when a call of the storage layer throws an error, the
  handler answers with status 500 and the envelope of its message and the error's
  \<^verbatim>\<open>message\<close> (its \<^verbatim>\<open>stack\<close> in \<open>createDoctor\<close> and \<open>createPaciente\<close>), and the store is
  the one the handler got. Every handler returns a response, so nothing propagates.
\<close>

theorem storage_error_envelope:
  "(Doctor_findAll M s = Inl e \<longrightarrow>
      getDoctores M s = (error_envelope ''Error al obtener los doctores'' (Error.message e), s))
 \<and> (Doctor_findByPk M id' s = Inl e \<longrightarrow>
      getDoctorById M id' s = (error_envelope ''Error al obtener los doctores'' (Error.message e), s)
    \<and> updateDoctor M id' dbody s = (error_envelope ''Error al modificar el doctor'' (Error.message e), s)
    \<and> deleteDoctor M id' s = (error_envelope ''Error al eliminar el doctor'' (Error.message e), s))
 \<and> (Doctor_create M dbody s = Inl e \<longrightarrow>
      createDoctor M dbody s = (error_envelope ''No se pudo crear el doctor'' (Error.stack e), s))
 \<and> (Doctor_findByPk M id' s = Inr (Some d) \<and> Doctor_update M dbody id' s = Inl e \<longrightarrow>
      updateDoctor M id' dbody s = (error_envelope ''Error al modificar el doctor'' (Error.message e), s))
 \<and> (Doctor_findByPk M id' s = Inr (Some d) \<and> Doctor_destroy M id' s = Inl e \<longrightarrow>
      deleteDoctor M id' s = (error_envelope ''Error al eliminar el doctor'' (Error.message e), s))
 \<and> (Paciente_findAll M s = Inl e \<longrightarrow>
      getPacientes M s = (error_envelope ''Error al obtener los pacientes'' (Error.message e), s))
 \<and> (Paciente_findByPk M id' s = Inl e \<longrightarrow>
      getPacienteById M id' s = (error_envelope ''Error al obtener los pacientes'' (Error.message e), s)
    \<and> updatePaciente M id' pbody s = (error_envelope ''Paciente modificado'' (Error.message e), s)
    \<and> deletePaciente M id' s = (error_envelope ''Error al eliminar el paciente'' (Error.message e), s))
 \<and> (Paciente_create M pbody s = Inl e \<longrightarrow>
      createPaciente M pbody s = (error_envelope ''No se pudo crear el paciente'' (Error.stack e), s))
 \<and> (Paciente_findByPk M id' s = Inr (Some p) \<and> Paciente_update M pbody id' s = Inl e \<longrightarrow>
      updatePaciente M id' pbody s = (error_envelope ''Paciente modificado'' (Error.message e), s))
 \<and> (Paciente_findByPk M id' s = Inr (Some p) \<and> Paciente_destroy M id' s = Inl e \<longrightarrow>
      deletePaciente M id' s = (error_envelope ''Error al eliminar el paciente'' (Error.message e), s))
 \<and> (Cita_findAll M s = Inl e \<longrightarrow>
      getCitas M s = (error_envelope ''Error al obtener las citas'' (Error.message e), s))
 \<and> (Cita_findOne M (where_cita profesional paciente fecha) s = Inl e \<longrightarrow>
      getOneCita M profesional paciente fecha s =
        (error_envelope ''Error al obtener los doctores'' (Error.message e), s)
    \<and> updateCita M profesional paciente fecha cbody s =
        (error_envelope ''Error al modificar la cita'' (Error.message e), s)
    \<and> deleteCita M profesional paciente fecha s =
        (error_envelope ''Error al eliminar la cita'' (Error.message e), s))
 \<and> (Cita_create M cbody s = Inl e \<longrightarrow>
      createCita M cbody s = (error_envelope ''No se pudo crear la cita'' (Error.message e), s))
 \<and> (Cita_findOne M (where_cita profesional paciente fecha) s = Inr (Some c)
      \<and> Cita_update M cbody (where_cita profesional paciente fecha) s = Inl e \<longrightarrow>
      updateCita M profesional paciente fecha cbody s =
        (error_envelope ''Error al modificar la cita'' (Error.message e), s))
 \<and> (Cita_findOne M (where_cita profesional paciente fecha) s = Inr (Some c)
      \<and> Cita_destroy M (where_cita profesional paciente fecha) s = Inl e \<longrightarrow>
      deleteCita M profesional paciente fecha s =
        (error_envelope ''Error al eliminar la cita'' (Error.message e), s))"
  by (simp add: error_envelope_def
      getDoctores_def getDoctorById_def createDoctor_def updateDoctor_def deleteDoctor_def
      getPacientes_def getPacienteById_def createPaciente_def updatePaciente_def deletePaciente_def
      getCitas_def getOneCita_def createCita_def updateCita_def deleteCita_def)

theorem storage_error_envelope_witness:
  "getDoctores unreachable booked =
     (error_envelope ''Error al obtener los doctores'' ''connect ECONNREFUSED'', booked)
   \<and> getDoctorById unreachable 1 booked =
     (error_envelope ''Error al obtener los doctores'' ''connect ECONNREFUSED'', booked)
   \<and> createDoctor unreachable (doctor_payload luis) booked =
     (error_envelope ''No se pudo crear el doctor''
        ''SequelizeConnectionRefusedError: connect ECONNREFUSED'', booked)
   \<and> updateDoctor unreachable 1 (doctor_payload luis) booked =
     (error_envelope ''Error al modificar el doctor'' ''connect ECONNREFUSED'', booked)
   \<and> deleteDoctor unreachable 1 booked =
     (error_envelope ''Error al eliminar el doctor'' ''connect ECONNREFUSED'', booked)
   \<and> updateDoctor (lost_after_read restrict) 1 (doctor_payload luis) booked =
     (error_envelope ''Error al modificar el doctor'' ''Connection lost'', booked)
   \<and> deleteDoctor (lost_after_read restrict) 1 booked =
     (error_envelope ''Error al eliminar el doctor'' ''Connection lost'', booked)
   \<and> deleteDoctor (connection restrict) 1 booked =
     (error_envelope ''Error al eliminar el doctor''
        ''Cannot delete or update a parent row: a foreign key constraint fails'', booked)
   \<and> getPacientes unreachable booked =
     (error_envelope ''Error al obtener los pacientes'' ''connect ECONNREFUSED'', booked)
   \<and> getPacienteById unreachable 10 booked =
     (error_envelope ''Error al obtener los pacientes'' ''connect ECONNREFUSED'', booked)
   \<and> createPaciente unreachable (paciente_payload pablo) booked =
     (error_envelope ''No se pudo crear el paciente''
        ''SequelizeConnectionRefusedError: connect ECONNREFUSED'', booked)
   \<and> createPaciente (connection restrict) (paciente_payload pablo) booked =
     (error_envelope ''No se pudo crear el paciente''
        ''SequelizeUniqueConstraintError: Validation error'', booked)
   \<and> updatePaciente unreachable 10 (paciente_payload pablo) booked =
     (error_envelope ''Paciente modificado'' ''connect ECONNREFUSED'', booked)
   \<and> deletePaciente unreachable 10 booked =
     (error_envelope ''Error al eliminar el paciente'' ''connect ECONNREFUSED'', booked)
   \<and> updatePaciente (lost_after_read restrict) 10 (paciente_payload pablo) booked =
     (error_envelope ''Paciente modificado'' ''Connection lost'', booked)
   \<and> deletePaciente (lost_after_read restrict) 10 booked =
     (error_envelope ''Error al eliminar el paciente'' ''Connection lost'', booked)
   \<and> getCitas unreachable booked =
     (error_envelope ''Error al obtener las citas'' ''connect ECONNREFUSED'', booked)
   \<and> getOneCita unreachable 1 10 1704103200 booked =
     (error_envelope ''Error al obtener los doctores'' ''connect ECONNREFUSED'', booked)
   \<and> createCita unreachable (cita_payload ana_paula) booked =
     (error_envelope ''No se pudo crear la cita'' ''connect ECONNREFUSED'', booked)
   \<and> updateCita unreachable 1 10 1704103200 (cita_payload ana_paula) booked =
     (error_envelope ''Error al modificar la cita'' ''connect ECONNREFUSED'', booked)
   \<and> deleteCita unreachable 1 10 1704103200 booked =
     (error_envelope ''Error al eliminar la cita'' ''connect ECONNREFUSED'', booked)
   \<and> updateCita (lost_after_read restrict) 1 10 1704103200 (cita_payload ana_paula) booked =
     (error_envelope ''Error al modificar la cita'' ''Connection lost'', booked)
   \<and> deleteCita (lost_after_read restrict) 1 10 1704103200 booked =
     (error_envelope ''Error al eliminar la cita'' ''Connection lost'', booked)"
proof -
  have refused: "Error.message ConnectionRefusedError = ''connect ECONNREFUSED''"
    "Error.stack ConnectionRefusedError = ''SequelizeConnectionRefusedError: connect ECONNREFUSED''"
    by (simp_all add: ConnectionRefusedError_def sequelize_error_def)
  have lost: "Error.message ConnectionLostError = ''Connection lost''"
    by (simp add: ConnectionLostError_def sequelize_error_def)
  have parent: "Error.message parent_row_fails =
      ''Cannot delete or update a parent row: a foreign key constraint fails''"
    by (simp add: parent_row_fails_def ForeignKeyConstraintError_def sequelize_error_def)
  have dup: "Error.stack UniqueConstraintError = ''SequelizeUniqueConstraintError: Validation error''"
    by (simp add: UniqueConstraintError_def sequelize_error_def)
  have down: "Doctor_findAll unreachable booked = Inl ConnectionRefusedError"
    "Doctor_findByPk unreachable 1 booked = Inl ConnectionRefusedError"
    "Doctor_create unreachable (doctor_payload luis) booked = Inl ConnectionRefusedError"
    "Paciente_findAll unreachable booked = Inl ConnectionRefusedError"
    "Paciente_findByPk unreachable 10 booked = Inl ConnectionRefusedError"
    "Paciente_create unreachable (paciente_payload pablo) booked = Inl ConnectionRefusedError"
    "Cita_findAll unreachable booked = Inl ConnectionRefusedError"
    "Cita_findOne unreachable (where_cita 1 10 1704103200) booked = Inl ConnectionRefusedError"
    "Cita_create unreachable (cita_payload ana_paula) booked = Inl ConnectionRefusedError"
    by (simp_all add: unreachable_def)
  have found: "Doctor_findByPk (lost_after_read restrict) 1 booked = Inr (Some ana)"
    "Paciente_findByPk (lost_after_read restrict) 10 booked = Inr (Some pablo)"
    "Cita_findOne (lost_after_read restrict) (where_cita 1 10 1704103200) booked = Inr (Some ana_pablo)"
    "Doctor_findByPk (connection restrict) 1 booked = Inr (Some ana)"
    by (simp_all add: sample_defs store_defs where_cita_def)
  have writes: "Doctor_update (lost_after_read restrict) (doctor_payload luis) 1 booked = Inl ConnectionLostError"
    "Doctor_destroy (lost_after_read restrict) 1 booked = Inl ConnectionLostError"
    "Paciente_update (lost_after_read restrict) (paciente_payload pablo) 10 booked = Inl ConnectionLostError"
    "Paciente_destroy (lost_after_read restrict) 10 booked = Inl ConnectionLostError"
    "Cita_update (lost_after_read restrict) (cita_payload ana_paula) (where_cita 1 10 1704103200) booked
       = Inl ConnectionLostError"
    "Cita_destroy (lost_after_read restrict) (where_cita 1 10 1704103200) booked = Inl ConnectionLostError"
    by (simp_all add: lost_after_read_def)
  have refusedk: "Doctor_destroy (connection restrict) 1 booked = Inl parent_row_fails"
    "Paciente_create (connection restrict) (paciente_payload pablo) booked = Inl UniqueConstraintError"
    by (simp_all add: sample_defs store_defs)
  show ?thesis
    using down found writes refusedk
      storage_error_envelope [where M = unreachable and s = booked and e = ConnectionRefusedError and id' = 1
          and dbody = "doctor_payload luis" and pbody = "paciente_payload pablo"
          and cbody = "cita_payload ana_paula"
          and profesional = 1 and paciente = 10 and fecha = 1704103200]
      storage_error_envelope [where M = unreachable and s = booked and e = ConnectionRefusedError and id' = 10
          and dbody = "doctor_payload luis" and pbody = "paciente_payload pablo"
          and cbody = "cita_payload ana_paula"
          and profesional = 1 and paciente = 10 and fecha = 1704103200]
      storage_error_envelope [where M = "lost_after_read restrict" and s = booked and e = ConnectionLostError
          and id' = 1 and d = ana and c = ana_pablo
          and dbody = "doctor_payload luis" and cbody = "cita_payload ana_paula"
          and profesional = 1 and paciente = 10 and fecha = 1704103200]
      storage_error_envelope [where M = "lost_after_read restrict" and s = booked and e = ConnectionLostError
          and id' = 10 and p = pablo and pbody = "paciente_payload pablo"]
      storage_error_envelope [where M = "connection restrict" and s = booked and e = parent_row_fails
          and id' = 1 and d = ana]
      storage_error_envelope [where M = "connection restrict" and s = booked and e = UniqueConstraintError
          and pbody = "paciente_payload pablo"]
    by (simp add: refused lost parent dup)
qed

text \<open>
  C10. When the patient is found and the update throws, \<open>updatePaciente\<close> answers 500
  with the message \<^verbatim>\<open>Paciente modificado\<close>.
\<close>

theorem updatePaciente_error_message:
  "(Paciente_findByPk M id' s = Inr (Some p) \<and> Paciente_update M body id' s = Inl err \<longrightarrow>
      updatePaciente M id' body s =
        (\<lparr>status = 500, message = ''Paciente modificado'', data = None,
          error = Some (Error.message err)\<rparr>, s))"
  by (simp add: updatePaciente_def)

theorem updatePaciente_error_message_witness:
  "Paciente_findByPk (connection restrict) 10 booked = Inr (Some pablo)
   \<and> Paciente_update (connection restrict) (empty_paciente_body\<lparr>paciente_body.nombre := Null\<rparr>) 10 booked
       = Inl (ValidationError [''notNull Violation: Paciente.nombre cannot be null''])
   \<and> updatePaciente (connection restrict) 10 (empty_paciente_body\<lparr>paciente_body.nombre := Null\<rparr>) booked =
       (\<lparr>status = 500, message = ''Paciente modificado'', data = None,
         error = Some ''notNull Violation: Paciente.nombre cannot be null''\<rparr>, booked)"
proof -
  have f: "Paciente_findByPk (connection restrict) 10 booked = Inr (Some pablo)"
    by (simp add: sample_defs store_defs)
  have u: "Paciente_update (connection restrict) (empty_paciente_body\<lparr>paciente_body.nombre := Null\<rparr>) 10 booked
       = Inl (ValidationError [''notNull Violation: Paciente.nombre cannot be null''])"
    by (simp add: sample_defs store_defs cannot_be_null_def)
  have m: "Error.message (ValidationError [''notNull Violation: Paciente.nombre cannot be null''])
      = ''notNull Violation: Paciente.nombre cannot be null''"
    by (simp add: ValidationError_def sequelize_error_def)
  show ?thesis
    using f u updatePaciente_error_message [of "connection restrict" 10 booked pablo
        "empty_paciente_body\<lparr>paciente_body.nombre := Null\<rparr>"
        "ValidationError [''notNull Violation: Paciente.nombre cannot be null'']"]
    by (simp add: m)
qed

section \<open>Updates that rewrite the key\<close>

lemma update_doctor_old_key_gone:
  assumes "update_doctor k body pk s = Inr s'" and "pk \<in> set (doctor_keys s)"
    and "doctor_body.id_profesional body = Val new" and "new \<noteq> pk"
  shows "pk \<notin> set (doctor_keys s')"
proof -
  let ?rows = "s\<lparr>doctor_table :=
      map (\<lambda>d. if doctor.id_profesional d = pk then set_doctor body d else d) (doctor_table s)\<rparr>"
  from assms have "doctor_keys s' = doctor_keys ?rows"
    unfolding update_doctor_def Let_def
    by (auto simp: doctor_keys_def split: if_splits referential_action.splits)
  moreover have "pk \<notin> set (doctor_keys ?rows)"
    unfolding doctor_keys_rows using assms(3,4) by auto
  ultimately show ?thesis by simp
qed

lemma update_paciente_old_key_gone:
  assumes "update_paciente k body pk s = Inr s'" and "pk \<in> set (paciente_keys s)"
    and "paciente_body.id_numeroCedula body = Val new" and "new \<noteq> pk"
  shows "pk \<notin> set (paciente_keys s')"
proof -
  let ?rows = "s\<lparr>paciente_table :=
      map (\<lambda>p. if paciente.id_numeroCedula p = pk then set_paciente body p else p) (paciente_table s)\<rparr>"
  from assms have "paciente_keys s' = paciente_keys ?rows"
    unfolding update_paciente_def Let_def
    by (auto simp: paciente_keys_def split: if_splits referential_action.splits)
  moreover have "pk \<notin> set (paciente_keys ?rows)"
    unfolding paciente_keys_rows using assms(3,4) by auto
  ultimately show ?thesis by simp
qed

lemma update_cita_old_key_gone:
  assumes "update_cita body wh s = Inr s'" and "wh \<in> set (cita_table s)"
    and "set_cita body wh \<noteq> wh"
  shows "wh \<notin> set (cita_table s')"
  using assms unfolding update_cita_def Let_def
  by (auto split: if_splits)

text \<open>
  C9. The update handlers pass the body on as it is, key columns included: when the body
  gives a new key and the handler answers 200, a lookup with the original key on the
  store left behind answers 404. The witness gives such a body for each of the three.
\<close>

theorem update_rewrites_key:
  "(doctor_body.id_profesional dbody = Val new \<and> new \<noteq> id'
      \<and> status (fst (updateDoctor (connection k) id' dbody s)) = 200 \<longrightarrow>
    getDoctorById (connection k) id' (snd (updateDoctor (connection k) id' dbody s)) =
      (\<lparr>status = 404, message = ''Doctor no encontrado'', data = None, error = None\<rparr>,
       snd (updateDoctor (connection k) id' dbody s)))
 \<and> (paciente_body.id_numeroCedula pbody = Val new \<and> new \<noteq> id'
      \<and> status (fst (updatePaciente (connection k) id' pbody s)) = 200 \<longrightarrow>
    getPacienteById (connection k) id' (snd (updatePaciente (connection k) id' pbody s)) =
      (\<lparr>status = 404, message = ''Paciente no encontrado'', data = None, error = None\<rparr>,
       snd (updatePaciente (connection k) id' pbody s)))
 \<and> (set_cita cbody (where_cita profesional paciente fecha) \<noteq> where_cita profesional paciente fecha
      \<and> status (fst (updateCita (connection k) profesional paciente fecha cbody s)) = 200 \<longrightarrow>
    getOneCita (connection k) profesional paciente fecha
        (snd (updateCita (connection k) profesional paciente fecha cbody s)) =
      (\<lparr>status = 404, message = ''Cita no encontrada'', data = None, error = None\<rparr>,
       snd (updateCita (connection k) profesional paciente fecha cbody s)))"
proof (intro conjI impI; elim conjE)
  assume new: "doctor_body.id_profesional dbody = Val new" "new \<noteq> id'"
    and ok: "status (fst (updateDoctor (connection k) id' dbody s)) = 200"
  from ok obtain s' d where found: "select_doctor id' s = Inr (Some d)"
    and upd: "update_doctor k dbody id' s = Inr s'"
    and s': "snd (updateDoctor (connection k) id' dbody s) = s'"
    by (auto simp: updateDoctor_def connection_def split: sum.splits option.splits)
  have "select_doctor id' s' = Inr None"
    using upd found new by (intro select_doctor_None update_doctor_old_key_gone select_doctor_Some_key)
  then show "getDoctorById (connection k) id' (snd (updateDoctor (connection k) id' dbody s)) =
      (\<lparr>status = 404, message = ''Doctor no encontrado'', data = None, error = None\<rparr>,
       snd (updateDoctor (connection k) id' dbody s))"
    unfolding s' by (simp add: getDoctorById_def connection_def)
next
  assume new: "paciente_body.id_numeroCedula pbody = Val new" "new \<noteq> id'"
    and ok: "status (fst (updatePaciente (connection k) id' pbody s)) = 200"
  from ok obtain s' p where found: "select_paciente id' s = Inr (Some p)"
    and upd: "update_paciente k pbody id' s = Inr s'"
    and s': "snd (updatePaciente (connection k) id' pbody s) = s'"
    by (auto simp: updatePaciente_def connection_def split: sum.splits option.splits)
  have "select_paciente id' s' = Inr None"
    using upd found new
    by (intro select_paciente_None update_paciente_old_key_gone select_paciente_Some_key)
  then show "getPacienteById (connection k) id' (snd (updatePaciente (connection k) id' pbody s)) =
      (\<lparr>status = 404, message = ''Paciente no encontrado'', data = None, error = None\<rparr>,
       snd (updatePaciente (connection k) id' pbody s))"
    unfolding s' by (simp add: getPacienteById_def connection_def)
next
  let ?wh = "where_cita profesional paciente fecha"
  assume new: "set_cita cbody ?wh \<noteq> ?wh"
    and ok: "status (fst (updateCita (connection k) profesional paciente fecha cbody s)) = 200"
  from ok obtain s' c where found: "select_cita ?wh s = Inr (Some c)"
    and upd: "update_cita cbody ?wh s = Inr s'"
    and s': "snd (updateCita (connection k) profesional paciente fecha cbody s) = s'"
    by (auto simp: updateCita_def connection_def split: sum.splits option.splits)
  have "select_cita ?wh s' = Inr None"
    using upd found new
    by (intro select_cita_None update_cita_old_key_gone select_cita_Some_mem)
  then show "getOneCita (connection k) profesional paciente fecha
        (snd (updateCita (connection k) profesional paciente fecha cbody s)) =
      (\<lparr>status = 404, message = ''Cita no encontrada'', data = None, error = None\<rparr>,
       snd (updateCita (connection k) profesional paciente fecha cbody s))"
    unfolding s' by (simp add: getOneCita_def connection_def)
qed

theorem update_rewrites_key_witness:
  "doctor_body.id_profesional (empty_doctor_body\<lparr>doctor_body.id_profesional := Val 3\<rparr>) = Val 3
   \<and> updateDoctor (connection restrict) 2 (empty_doctor_body\<lparr>doctor_body.id_profesional := Val 3\<rparr>) booked =
     (\<lparr>status = 200, message = ''Doctor actualizado'', data = None, error = None\<rparr>,
      booked\<lparr>doctor_table := [ana, berta\<lparr>doctor.id_profesional := 3\<rparr>]\<rparr>)
   \<and> status (fst (getDoctorById (connection restrict) 2
        (booked\<lparr>doctor_table := [ana, berta\<lparr>doctor.id_profesional := 3\<rparr>]\<rparr>))) = 404
   \<and> paciente_body.id_numeroCedula (empty_paciente_body\<lparr>paciente_body.id_numeroCedula := Val 12\<rparr>) = Val 12
   \<and> updatePaciente (connection restrict) 11
        (empty_paciente_body\<lparr>paciente_body.id_numeroCedula := Val 12\<rparr>) booked =
     (\<lparr>status = 200, message = ''Paciente actualizado'', data = None, error = None\<rparr>,
      booked\<lparr>paciente_table := [pablo, paula\<lparr>paciente.id_numeroCedula := 12\<rparr>]\<rparr>)
   \<and> status (fst (getPacienteById (connection restrict) 11
        (booked\<lparr>paciente_table := [pablo, paula\<lparr>paciente.id_numeroCedula := 12\<rparr>]\<rparr>))) = 404
   \<and> updateCita (connection restrict) 1 10 1704103200
        (empty_cita_body\<lparr>cita_body.id_numeroCedula := Val 11\<rparr>) booked =
     (\<lparr>status = 200, message = ''Cita actualizada'', data = None, error = None\<rparr>,
      booked\<lparr>cita_table := [ana_paula]\<rparr>)
   \<and> status (fst (getOneCita (connection restrict) 1 10 1704103200
        (booked\<lparr>cita_table := [ana_paula]\<rparr>))) = 404"
proof -
  have d: "updateDoctor (connection restrict) 2 (empty_doctor_body\<lparr>doctor_body.id_profesional := Val 3\<rparr>) booked =
     (\<lparr>status = 200, message = ''Doctor actualizado'', data = None, error = None\<rparr>,
      booked\<lparr>doctor_table := [ana, berta\<lparr>doctor.id_profesional := 3\<rparr>]\<rparr>)"
    by (simp add: sample_defs store_defs handler_defs)
  have p: "updatePaciente (connection restrict) 11
        (empty_paciente_body\<lparr>paciente_body.id_numeroCedula := Val 12\<rparr>) booked =
     (\<lparr>status = 200, message = ''Paciente actualizado'', data = None, error = None\<rparr>,
      booked\<lparr>paciente_table := [pablo, paula\<lparr>paciente.id_numeroCedula := 12\<rparr>]\<rparr>)"
    by (simp add: sample_defs store_defs handler_defs)
  have c: "updateCita (connection restrict) 1 10 1704103200
        (empty_cita_body\<lparr>cita_body.id_numeroCedula := Val 11\<rparr>) booked =
     (\<lparr>status = 200, message = ''Cita actualizada'', data = None, error = None\<rparr>,
      booked\<lparr>cita_table := [ana_paula]\<rparr>)"
    by (simp add: sample_defs store_defs handler_defs)
  have n: "set_cita (empty_cita_body\<lparr>cita_body.id_numeroCedula := Val 11\<rparr>)
      (where_cita 1 10 1704103200) \<noteq> where_cita 1 10 1704103200"
    by (simp add: sample_defs set_cita_def where_cita_def)
  have b: "doctor_body.id_profesional (empty_doctor_body\<lparr>doctor_body.id_profesional := Val 3\<rparr>) = Val 3"
    "paciente_body.id_numeroCedula (empty_paciente_body\<lparr>paciente_body.id_numeroCedula := Val 12\<rparr>) = Val 12"
    by simp_all
  show ?thesis
    using d p c n b
      update_rewrites_key [of "empty_doctor_body\<lparr>doctor_body.id_profesional := Val 3\<rparr>" 3 2 restrict booked]
      update_rewrites_key [of _ 12 11 restrict booked "empty_paciente_body\<lparr>paciente_body.id_numeroCedula := Val 12\<rparr>"]
      update_rewrites_key [of _ _ _ restrict booked _ "empty_cita_body\<lparr>cita_body.id_numeroCedula := Val 11\<rparr>" 1 10 1704103200]
    by simp
qed

end
